theory Spec2Isabelle
  imports Complex_Main "HOL-Library.AList"
begin

unbundle bit_operations_syntax

section \<open>Signal registration (src/os/signal.cc)\<close>

text \<open>
  A \<open>SignalHandler\<close> is a C function pointer. Three pointer values are special:
  the zero pointer (\<open>nullptr\<close>, which is also \<open>SIG_DFL\<close>), \<open>SIG_IGN\<close> (the pointer 1)
  and the pointer -1 that the four-argument \<open>swoole_signal_set\<close> reads as "clear".
  The two OS-level trampolines of the classic backend are named as in the source;
  every other function is \<open>Handler k\<close>.
\<close>

datatype SignalHandler =
    SIG_DFL                   \<comment> \<open>the zero pointer: \<open>nullptr\<close> and \<open>SIG_DFL\<close>\<close>
  | SIG_IGN
  | SIG_CLEAR                 \<comment> \<open>\<open>(SignalHandler) -1\<close>\<close>
  | signal_handler_safety
  | signal_handler_simple
  | Handler nat

abbreviation nullptr :: SignalHandler where
  "nullptr \<equiv> SIG_DFL"

record Signal =
  handler :: SignalHandler
  signo :: int
  activated :: bool

definition zero_Signal :: Signal where
  \<comment> \<open>what \<open>sw_memset_zero(&signals[signo], sizeof(Signal))\<close> leaves\<close>
  "zero_Signal = \<lparr>handler = nullptr, signo = 0, activated = False\<rparr>"

text \<open>
  The process-wide statics of signal.cc together with the part of the operating system
  the registration path talks to: the dispositions installed by \<open>sigaction\<close>/\<open>signal\<close>,
  the blocked-signal mask of the process, and the \<open>EVFILT_SIGNAL\<close> filters of the
  kqueue. \<open>signals\<close> is the array \<open>static Signal signals[SW_SIGNO_MAX]\<close>, so its
  length is the constant \<open>SW_SIGNO_MAX\<close>.
\<close>

record sig_state =
  signals :: "Signal list"
  signalfd_mask :: "int set"
  signal_fd_open :: bool            \<comment> \<open>\<open>signal_fd != -1\<close>\<close>
  procmask :: "int set"             \<comment> \<open>set by \<open>sigprocmask\<close>\<close>
  os_handlers :: "int \<Rightarrow> SignalHandler"  \<comment> \<open>dispositions, set by \<open>sigaction\<close> and \<open>signal\<close>\<close>
  kq_filters :: "int set"           \<comment> \<open>signals with an \<open>EVFILT_SIGNAL\<close> filter\<close>

text \<open>
  What is fixed when the process runs: the compile-time switches, the runtime switches
  of \<open>SwooleG\<close>, whether an event loop exists, and the answers of the operating system:
  which signal numbers \<open>sigaction\<close> accepts, which numbers \<open>sigaddset\<close> and
  \<open>sigdelset\<close> accept (glibc refuses 0, 32, 33 and everything above 64), which signals
  can never be blocked (\<open>SIGKILL\<close> and \<open>SIGSTOP\<close>), and whether \<open>signalfd\<close> can
  be created.
\<close>

record sig_config =
  HAVE_SIGNALFD :: bool
  HAVE_KQUEUE :: bool
  enable_signalfd :: bool
  enable_kqueue :: bool
  event_is_available :: bool
  SIGCHLD :: int
  sigaction_ok :: "int \<Rightarrow> bool"
  sigset_ok :: "int \<Rightarrow> bool"
  unblockable :: "int set"
  signalfd_ok :: bool

definition SW_SIGNO_MAX :: "sig_state \<Rightarrow> int" where
  "SW_SIGNO_MAX s = int (length (signals s))"

text \<open>
  C does not check an array index. An access \<open>signals[signo]\<close> with \<open>signo\<close> outside
  \<open>[0, SW_SIGNO_MAX)\<close> is undefined behaviour; the model stops there with the fault
  \<open>OutOfBounds signo\<close>, which is not a return value of the C function.
\<close>

datatype fault = OutOfBounds int

definition in_bounds :: "sig_state \<Rightarrow> int \<Rightarrow> bool" where
  "in_bounds s i \<longleftrightarrow> 0 \<le> i \<and> i < SW_SIGNO_MAX s"

definition signals_at :: "sig_state \<Rightarrow> int \<Rightarrow> Signal" where
  "signals_at s i = signals s ! nat i"

definition signals_put :: "sig_state \<Rightarrow> int \<Rightarrow> Signal \<Rightarrow> sig_state" where
  "signals_put s i v = s\<lparr>signals := (signals s)[nat i := v]\<rparr>"

definition sigaction :: "sig_config \<Rightarrow> sig_state \<Rightarrow> int \<Rightarrow> SignalHandler
    \<Rightarrow> (SignalHandler \<times> sig_state) option" where
  \<comment> \<open>\<open>sigaction(signo, &act, &oact)\<close>: \<open>None\<close> is the return value -1\<close>
  "sigaction cfg s sig f =
     (if sigaction_ok cfg sig
      then Some (os_handlers s sig, s\<lparr>os_handlers := (os_handlers s)(sig := f)\<rparr>)
      else None)"

definition swoole_signal_set4 :: "sig_config \<Rightarrow> sig_state \<Rightarrow> int \<Rightarrow> SignalHandler
    \<Rightarrow> fault + (SignalHandler \<times> sig_state)" where
  \<comment> \<open>\<open>swoole_signal_set(int signo, SignalHandler func, int restart, int mask)\<close>\<close>
  "swoole_signal_set4 cfg s sig func0 =
     (let func = (if func0 = nullptr then SIG_IGN
                  else if func0 = SIG_CLEAR then SIG_DFL
                  else func0)
      in if func = SIG_IGN \<or> func = SIG_DFL then
           (if \<not> in_bounds s sig then Inl (OutOfBounds sig)
            else let s1 = signals_put s sig
                            ((signals_at s sig)\<lparr>handler := nullptr, activated := False\<rparr>)
                 in (case sigaction cfg s1 sig func of
                       None \<Rightarrow> Inr (nullptr, s1)
                     | Some (old, s2) \<Rightarrow> Inr (old, s2)))
         else
           (case sigaction cfg s sig func of
              None \<Rightarrow> Inr (nullptr, s)
            | Some (old, s2) \<Rightarrow> Inr (old, s2)))"

definition sigaddset :: "sig_config \<Rightarrow> int set \<Rightarrow> int \<Rightarrow> int set" where
  \<comment> \<open>\<open>sigaddset(&set, signo)\<close>: a number it refuses leaves the set as it is; the source
     drops the return value\<close>
  "sigaddset cfg m sig = (if sigset_ok cfg sig then insert sig m else m)"

definition sigdelset :: "sig_config \<Rightarrow> int set \<Rightarrow> int \<Rightarrow> int set" where
  "sigdelset cfg m sig = (if sigset_ok cfg sig then m - {sig} else m)"

definition swoole_signalfd_create :: "sig_config \<Rightarrow> sig_state \<Rightarrow> bool \<times> sig_state" where
  \<comment> \<open>\<open>sigprocmask\<close> with a valid \<open>how\<close> does not fail, so that branch is left out; it
     blocks the signals of the set but for those that cannot be blocked\<close>
  "swoole_signalfd_create cfg s =
     (if signal_fd_open s then (False, s)
      else if \<not> signalfd_ok cfg then (False, s)
      else (True, s\<lparr>signal_fd_open := True, procmask := procmask s \<union> (signalfd_mask s - unblockable cfg)\<rparr>))"

definition swoole_signalfd_setup :: "sig_config \<Rightarrow> sig_state \<Rightarrow> sig_state" where
  \<comment> \<open>the registrations with the reactor are outside this state; the caller drops the result\<close>
  "swoole_signalfd_setup cfg s =
     (if \<not> signal_fd_open s then snd (swoole_signalfd_create cfg s) else s)"

definition swoole_signalfd_set :: "sig_config \<Rightarrow> sig_state \<Rightarrow> int \<Rightarrow> SignalHandler
    \<Rightarrow> fault + (SignalHandler \<times> sig_state)" where
  "swoole_signalfd_set cfg s sig h =
     (if \<not> in_bounds s sig then Inl (OutOfBounds sig)
      else
        let (origin_handler, s1) =
              (if h = nullptr \<and> activated (signals_at s sig) then
                 (nullptr,
                  signals_put (s\<lparr>signalfd_mask := sigdelset cfg (signalfd_mask s) sig\<rparr>) sig zero_Signal)
               else
                 (handler (signals_at s sig),
                  signals_put (s\<lparr>signalfd_mask := sigaddset cfg (signalfd_mask s) sig\<rparr>) sig
                    \<lparr>handler = h, signo = sig, activated = True\<rparr>));
            s2 = (if signal_fd_open s1
                  then s1\<lparr>procmask := signalfd_mask s1 - unblockable cfg\<rparr> else s1)
        in Inr (origin_handler, swoole_signalfd_setup cfg s2))"

definition swoole_signal_kqueue_set :: "sig_config \<Rightarrow> sig_state \<Rightarrow> int \<Rightarrow> SignalHandler
    \<Rightarrow> fault + (SignalHandler \<times> sig_state)" where
  \<comment> \<open>\<open>signal()\<close> and \<open>kevent()\<close> may fail; the source goes on either way\<close>
  "swoole_signal_kqueue_set cfg s sig h =
     (if \<not> in_bounds s sig then Inl (OutOfBounds sig)
      else if h = nullptr then
        let s1 = (case sigaction cfg s sig SIG_DFL of None \<Rightarrow> s | Some (_, t) \<Rightarrow> t);
            s2 = signals_put s1 sig zero_Signal
        in Inr (nullptr, s2\<lparr>kq_filters := kq_filters s2 - {sig}\<rparr>)
      else
        let s1 = (case sigaction cfg s sig SIG_IGN of None \<Rightarrow> s | Some (_, t) \<Rightarrow> t);
            origin_handler = handler (signals_at s1 sig);
            s2 = signals_put s1 sig \<lparr>handler = h, signo = sig, activated = True\<rparr>
        in Inr (origin_handler, s2\<lparr>kq_filters := insert sig (kq_filters s2)\<rparr>))"

definition swoole_signal_set :: "sig_config \<Rightarrow> sig_state \<Rightarrow> int \<Rightarrow> SignalHandler \<Rightarrow> bool
    \<Rightarrow> fault + (SignalHandler \<times> sig_state)" where
  \<comment> \<open>\<open>swoole_signal_set(int signo, SignalHandler handler, bool safety)\<close>\<close>
  "swoole_signal_set cfg s sig h safety =
     (if HAVE_SIGNALFD cfg \<and> enable_signalfd cfg \<and> event_is_available cfg then
        swoole_signalfd_set cfg s sig h
      else if HAVE_KQUEUE cfg \<and> enable_kqueue cfg \<and> event_is_available cfg \<and> sig \<noteq> SIGCHLD cfg then
        swoole_signal_kqueue_set cfg s sig h
      else if \<not> in_bounds s sig then Inl (OutOfBounds sig)
      else
        swoole_signal_set4 cfg
          (signals_put s sig \<lparr>handler = h, signo = sig, activated = True\<rparr>) sig
          (if safety then signal_handler_safety else signal_handler_simple))"

text \<open>The sibling lookups of the same table, which do check the upper bound.\<close>

datatype callback_outcome =
    Invalid_signo            \<comment> \<open>warning "signal number is invalid"\<close>
  | Unregistered_signal      \<comment> \<open>warning \<open>SW_ERROR_UNREGISTERED_SIGNAL\<close>\<close>
  | Ignored
  | Called SignalHandler

definition swoole_signal_callback :: "sig_state \<Rightarrow> int \<Rightarrow> fault + callback_outcome" where
  "swoole_signal_callback s sig =
     (if sig \<ge> SW_SIGNO_MAX s then Inr Invalid_signo
      else if \<not> in_bounds s sig then Inl (OutOfBounds sig)
      else let callback = handler (signals_at s sig)
           in if callback = nullptr then Inr Unregistered_signal
              else if callback = SIG_IGN \<or> callback = SIG_DFL then Inr Ignored
              else Inr (Called callback))"

definition swoole_signal_get_handler :: "sig_state \<Rightarrow> int \<Rightarrow> fault + SignalHandler" where
  "swoole_signal_get_handler s sig =
     (if sig \<ge> SW_SIGNO_MAX s then Inr nullptr
      else if \<not> in_bounds s sig then Inl (OutOfBounds sig)
      else Inr (handler (signals_at s sig)))"

text \<open>Which of the three registration paths \<open>swoole_signal_set\<close> takes.\<close>

datatype backend = Signalfd | Kqueue | Classic

definition signal_backend :: "sig_config \<Rightarrow> int \<Rightarrow> backend" where
  "signal_backend cfg sig =
     (if HAVE_SIGNALFD cfg \<and> enable_signalfd cfg \<and> event_is_available cfg then Signalfd
      else if HAVE_KQUEUE cfg \<and> enable_kqueue cfg \<and> event_is_available cfg \<and> sig \<noteq> SIGCHLD cfg
      then Kqueue
      else Classic)"

text \<open>Concrete configurations and tables (128 entries, as \<open>SW_SIGNO_MAX\<close> on Linux).\<close>

definition cfg_signalfd :: sig_config where
  "cfg_signalfd = \<lparr>HAVE_SIGNALFD = True, HAVE_KQUEUE = False, enable_signalfd = True,
     enable_kqueue = False, event_is_available = True, SIGCHLD = 17,
     sigaction_ok = (\<lambda>i. 1 \<le> i \<and> i \<le> 64 \<and> i \<noteq> 9 \<and> i \<noteq> 19),
     sigset_ok = (\<lambda>i. 1 \<le> i \<and> i \<le> 64 \<and> i \<noteq> 32 \<and> i \<noteq> 33), unblockable = {9, 19},
     signalfd_ok = True\<rparr>"

definition cfg_kqueue :: sig_config where
  "cfg_kqueue = \<lparr>HAVE_SIGNALFD = False, HAVE_KQUEUE = True, enable_signalfd = False,
     enable_kqueue = True, event_is_available = True, SIGCHLD = 20,
     sigaction_ok = (\<lambda>i. 1 \<le> i \<and> i \<le> 31 \<and> i \<noteq> 9 \<and> i \<noteq> 17),
     sigset_ok = (\<lambda>i. 1 \<le> i \<and> i \<le> 31), unblockable = {9, 17}, signalfd_ok = False\<rparr>"

definition cfg_classic :: sig_config where
  "cfg_classic = \<lparr>HAVE_SIGNALFD = True, HAVE_KQUEUE = False, enable_signalfd = False,
     enable_kqueue = False, event_is_available = False, SIGCHLD = 17,
     sigaction_ok = (\<lambda>i. 1 \<le> i \<and> i \<le> 64 \<and> i \<noteq> 9 \<and> i \<noteq> 19),
     sigset_ok = (\<lambda>i. 1 \<le> i \<and> i \<le> 64 \<and> i \<noteq> 32 \<and> i \<noteq> 33), unblockable = {9, 19},
     signalfd_ok = True\<rparr>"

definition sig_table :: "Signal list" where
  "sig_table = replicate 128 zero_Signal"

definition sig_init :: sig_state where
  "sig_init = \<lparr>signals = sig_table, signalfd_mask = {}, signal_fd_open = False,
     procmask = {}, os_handlers = (\<lambda>_. SIG_DFL), kq_filters = {}\<rparr>"

definition sig_reg10 :: sig_state where
  \<comment> \<open>signal 10 registered with a user handler through the signalfd backend\<close>
  "sig_reg10 = \<lparr>signals = sig_table[10 := \<lparr>handler = Handler 1, signo = 10, activated = True\<rparr>],
     signalfd_mask = {10}, signal_fd_open = True, procmask = {10},
     os_handlers = (\<lambda>_. SIG_DFL), kq_filters = {}\<rparr>"

definition sig_reg10_cleared :: sig_state where
  "sig_reg10_cleared = \<lparr>signals = sig_table[10 := zero_Signal],
     signalfd_mask = {}, signal_fd_open = True, procmask = {},
     os_handlers = (\<lambda>_. SIG_DFL), kq_filters = {}\<rparr>"

definition sig_reg10_again :: sig_state where
  "sig_reg10_again = \<lparr>signals = sig_table[10 := \<lparr>handler = nullptr, signo = 10, activated = True\<rparr>],
     signalfd_mask = {10}, signal_fd_open = True, procmask = {10},
     os_handlers = (\<lambda>_. SIG_DFL), kq_filters = {}\<rparr>"

definition sig_reg100 :: sig_state where
  \<comment> \<open>number 100 registered through the signalfd backend: \<open>sigaddset\<close> refused it, so the
     record is activated and the mask is empty\<close>
  "sig_reg100 = \<lparr>signals = sig_table[100 := \<lparr>handler = Handler 1, signo = 100, activated = True\<rparr>],
     signalfd_mask = {}, signal_fd_open = True, procmask = {},
     os_handlers = (\<lambda>_. SIG_DFL), kq_filters = {}\<rparr>"

section \<open>The PHP server object (ext-src/swoole_server.cc)\<close>

subsection \<open>PHP values\<close>

text \<open>
  A \<open>zval\<close>, as far as the server methods look at it. An array is an ordered hash
  table; only integer keys occur here. \<open>ZObject\<close> stands for closures and other objects.
\<close>

datatype zval =
    ZNull
  | ZFalse
  | ZTrue
  | ZLong int
  | ZString string
  | ZArray "(nat \<times> zval) list"
  | ZObject nat

definition ZVAL_IS_STRING :: "zval \<Rightarrow> bool" where
  "ZVAL_IS_STRING z = (case z of ZString _ \<Rightarrow> True | _ \<Rightarrow> False)"

definition Z_STRVAL :: "zval \<Rightarrow> string" where
  "Z_STRVAL z = (case z of ZString s \<Rightarrow> s | _ \<Rightarrow> [])"

definition zval_is_true :: "zval \<Rightarrow> bool" where
  \<comment> \<open>PHP truthiness\<close>
  "zval_is_true z =
     (case z of
        ZNull \<Rightarrow> False
      | ZFalse \<Rightarrow> False
      | ZTrue \<Rightarrow> True
      | ZLong n \<Rightarrow> n \<noteq> 0
      | ZString s \<Rightarrow> s \<noteq> [] \<and> s \<noteq> ''0''
      | ZArray a \<Rightarrow> a \<noteq> []
      | ZObject _ \<Rightarrow> True)"

definition long_of_zval :: "zval \<Rightarrow> int" where
  \<comment> \<open>\<open>zval_get_long\<close> on null, booleans and integers; used for concrete inputs only\<close>
  "long_of_zval z = (case z of ZLong n \<Rightarrow> n | ZTrue \<Rightarrow> 1 | _ \<Rightarrow> 0)"

text \<open>PHP arrays with integer keys: \<open>zend_hash_index_update\<close>, existence and count.\<close>

definition add_index_zval :: "zval \<Rightarrow> nat \<Rightarrow> zval \<Rightarrow> zval" where
  "add_index_zval arr i v = (case arr of ZArray a \<Rightarrow> ZArray (AList.update i v a) | _ \<Rightarrow> arr)"

definition add_index_bool :: "zval \<Rightarrow> nat \<Rightarrow> bool \<Rightarrow> zval" where
  "add_index_bool arr i b = add_index_zval arr i (if b then ZTrue else ZFalse)"

definition zend_hash_index_exists :: "zval \<Rightarrow> nat \<Rightarrow> bool" where
  "zend_hash_index_exists arr i = (case arr of ZArray a \<Rightarrow> map_of a i \<noteq> None | _ \<Rightarrow> False)"

definition php_swoole_array_length :: "zval \<Rightarrow> nat" where
  "php_swoole_array_length arr = (case arr of ZArray a \<Rightarrow> length a | _ \<Rightarrow> 0)"

subsection \<open>Machine integers\<close>

definition INT32_MIN :: int where "INT32_MIN = - (2 ^ 31)"
definition UINT32_MAX :: int where "UINT32_MAX = 2 ^ 32 - 1"

definition to_uint32 :: "int \<Rightarrow> int" where
  \<comment> \<open>the cast \<open>(uint32_t) x\<close>\<close>
  "to_uint32 x = x mod 2 ^ 32"

definition to_int :: "int \<Rightarrow> int" where
  \<comment> \<open>a \<open>zend_long\<close> returned as a 32-bit \<open>int\<close>: the low 32 bits, read as two's complement\<close>
  "to_int x = (x + 2 ^ 31) mod 2 ^ 32 - 2 ^ 31"

subsection \<open>Connections\<close>

text \<open>
  The fields of \<open>Connection\<close> that the methods below read or write. Time stamps are
  the C doubles, taken as real numbers.
\<close>

record Connection =
  fd :: int
  session_id :: int
  uid :: int                 \<comment> \<open>\<open>uint32_t\<close>; 0 means not bound\<close>
  protect :: bool
  last_recv_time :: real
  close_force :: bool

record Server =
  is_started :: bool
  worker_num :: nat
  task_worker_num :: nat
  is_worker :: bool                       \<comment> \<open>the calling process is an event worker\<close>
  is_task_worker :: bool                  \<comment> \<open>the calling process is a task worker\<close>
  heartbeat_check_interval :: int
  heartbeat_idle_time :: real
  connections :: "Connection list"        \<comment> \<open>the connection table, in the order \<open>foreach_connection\<close> walks it\<close>
  close_calls :: "int list"               \<comment> \<open>the session ids handed to \<open>Server::close\<close>, oldest first\<close>

subsection \<open>\<open>Server->bind\<close>\<close>

text \<open>
  \<open>Server::get_connection_verify\<close> is not part of this file; it is passed in as
  \<open>get_connection_verify\<close>, which gives the position of the connection in the table, or
  \<open>None\<close> for the null pointer. The spinlock makes the test and the write one step.
\<close>

definition bind :: "(Server \<Rightarrow> int \<Rightarrow> nat option) \<Rightarrow> Server \<Rightarrow> int \<Rightarrow> int \<Rightarrow> bool \<times> Server" where
  "bind get_connection_verify serv fd_arg uid_arg =
     (if \<not> is_started serv then (False, serv)
      else if uid_arg > UINT32_MAX \<or> uid_arg < INT32_MIN then (False, serv)
      else case get_connection_verify serv fd_arg of
             None \<Rightarrow> (False, serv)
           | Some k \<Rightarrow>
               let conn = connections serv ! k
               in if uid conn \<noteq> 0 then (False, serv)
                  else (True, serv\<lparr>connections :=
                                (connections serv)[k := conn\<lparr>uid := to_uint32 uid_arg\<rparr>]\<rparr>))"

definition find_session :: "Server \<Rightarrow> int \<Rightarrow> nat option" where
  \<comment> \<open>a lookup for concrete inputs: the first connection with this session id\<close>
  "find_session serv sid =
     (case filter (\<lambda>k. session_id (connections serv ! k) = sid) [0 ..< length (connections serv)] of
        [] \<Rightarrow> None
      | k # _ \<Rightarrow> Some k)"

subsection \<open>The user-supplied dispatch function\<close>

text \<open>
  \<open>sw_zend_call_function_ex\<close> either fails or leaves a return value. \<open>zval_get_long\<close>
  is PHP's conversion to \<open>zend_long\<close> and is passed in. The function returns a C \<open>int\<close>.
\<close>

datatype call_result = Call_failed | Returned zval

definition php_swoole_server_dispatch_func :: "(zval \<Rightarrow> int) \<Rightarrow> Server \<Rightarrow> call_result \<Rightarrow> int" where
  "php_swoole_server_dispatch_func zval_get_long serv call =
     (let worker_id =
            (case call of
               Call_failed \<Rightarrow> - 1
             | Returned retval \<Rightarrow>
                 if retval \<noteq> ZNull then
                   (let w = zval_get_long retval
                    in if w \<ge> int (worker_num serv) then - 1 else w)
                 else - 1)
      in to_int worker_id)"

subsection \<open>\<open>Server->addCommand\<close>\<close>

text \<open>
  \<open>Server::Command::REACTOR_THREAD\<close>, \<open>sw_callable_create\<close>, \<open>zend::function::call\<close>
  and \<open>Server::add_command\<close> are declared elsewhere and are passed in. The core's command
  table is the abstract \<open>'c\<close>, which only \<open>add_command\<close> changes.
\<close>

record 'c command_state =
  cmd_started :: bool
  cmd_core :: 'c
  command_callbacks :: "nat list"

definition command_handler :: "(nat \<Rightarrow> string \<Rightarrow> zval option) \<Rightarrow> nat \<Rightarrow> string \<Rightarrow> string" where
  \<comment> \<open>the lambda \<open>fn\<close>; \<open>call cb msg\<close> is \<open>zend::function::call\<close>, \<open>None\<close> when it fails\<close>
  \<open>command_handler call cb msg =
     (case call cb msg of
        None \<Rightarrow> ''{"data": "failed to call function", "code": -1}''
      | Some return_value \<Rightarrow>
          if \<not> ZVAL_IS_STRING return_value then ''{"data": "wrong return type", "code": -2}''
          else Z_STRVAL return_value)\<close>

definition addCommand :: "int \<Rightarrow> (zval \<Rightarrow> nat option) \<Rightarrow> (nat \<Rightarrow> string \<Rightarrow> zval option)
    \<Rightarrow> ('c \<Rightarrow> string \<Rightarrow> int \<Rightarrow> (string \<Rightarrow> string) \<Rightarrow> 'c option)
    \<Rightarrow> 'c command_state \<Rightarrow> string \<Rightarrow> int \<Rightarrow> zval \<Rightarrow> bool \<times> 'c command_state" where
  "addCommand REACTOR_THREAD sw_callable_create call add_command st name accepted_process_types zfn =
     (if cmd_started st then (False, st)
      else if accepted_process_types AND REACTOR_THREAD \<noteq> 0 then (False, st)
      else case sw_callable_create zfn of
             None \<Rightarrow> (False, st)
           | Some cb \<Rightarrow>
               (case add_command (cmd_core st) name accepted_process_types (command_handler call cb) of
                  None \<Rightarrow> (False, st)
                | Some core' \<Rightarrow>
                    (True, st\<lparr>cmd_core := core',
                              command_callbacks := command_callbacks st @ [cb]\<rparr>)))"

subsection \<open>Task envelopes\<close>

datatype task_flag =
    SW_TASK_TMPFILE
  | SW_TASK_SERIALIZE
  | SW_TASK_NONBLOCK
  | SW_TASK_CALLBACK
  | SW_TASK_WAITALL
  | SW_TASK_COROUTINE
  | SW_TASK_PEEK
  | SW_TASK_NOREPLY

text \<open>
  \<open>EventData\<close>: the header fields the methods use, and the payload bytes. The bit mask
  \<open>info.ext_flags\<close> is the set of its flags: \<open>|=\<close> is union, \<open>&\<close> is membership.
\<close>

record EventData =
  info_fd :: int                     \<comment> \<open>the task id\<close>
  info_len :: nat
  info_ext_flags :: "task_flag set"
  data :: string

definition SW_ERR :: int where "SW_ERR = - 1"
definition SW_OK :: int where "SW_OK = 0"

subsection \<open>\<open>Server->task\<close>\<close>

definition php_swoole_server_task_check_param :: "Server \<Rightarrow> int \<Rightarrow> int" where
  "php_swoole_server_task_check_param serv dst_worker_id =
     (if task_worker_num serv = 0 then SW_ERR
      else if dst_worker_id > 0 \<and> dst_worker_id \<ge> int (task_worker_num serv) then SW_ERR
      else if is_task_worker serv then SW_ERR
      else SW_OK)"

text \<open>
  \<open>packed\<close> is what \<open>php_swoole_server_task_pack(zdata, &buf)\<close> gave: the task id it
  returned and the envelope. \<open>Server::task\<close> is passed in as \<open>serv_task\<close>. The result
  is the PHP return value, the table of per-task callbacks, and the envelope handed to
  \<open>Server::task\<close> when the method got that far.
\<close>

definition task :: "(zval \<Rightarrow> nat option) \<Rightarrow> (EventData \<Rightarrow> int \<Rightarrow> bool)
    \<Rightarrow> Server \<Rightarrow> (int \<rightharpoonup> nat) \<Rightarrow> int \<times> EventData \<Rightarrow> int \<Rightarrow> zval option
    \<Rightarrow> zval \<times> (int \<rightharpoonup> nat) \<times> EventData option" where
  "task sw_callable_create serv_task serv task_callbacks packed dst_worker_id zfn =
     (if \<not> is_started serv then (ZFalse, task_callbacks, None)
      else if php_swoole_server_task_check_param serv dst_worker_id < 0
           then (ZFalse, task_callbacks, None)
      else
        let (task_id, buf) = packed
        in if task_id < 0 then (ZFalse, task_callbacks, None)
           else if \<not> is_worker serv then
             (let buf1 = buf\<lparr>info_ext_flags := info_ext_flags buf \<union> {SW_TASK_NOREPLY}\<rparr>;
                  buf2 = buf1\<lparr>info_ext_flags := info_ext_flags buf1 \<union> {SW_TASK_NONBLOCK}\<rparr>
              in if serv_task buf2 dst_worker_id then (ZLong task_id, task_callbacks, Some buf2)
                 else (ZFalse, task_callbacks, Some buf2))
           else if zfn \<noteq> None \<and> zval_is_true (the zfn) then
             (let buf1 = buf\<lparr>info_ext_flags := info_ext_flags buf \<union> {SW_TASK_CALLBACK}\<rparr>
              in case sw_callable_create (the zfn) of
                   None \<Rightarrow> (ZFalse, task_callbacks, None)
                 | Some cb \<Rightarrow>
                     let cbs = task_callbacks(task_id \<mapsto> cb);
                         buf2 = buf1\<lparr>info_ext_flags := info_ext_flags buf1 \<union> {SW_TASK_NONBLOCK}\<rparr>
                     in if serv_task buf2 dst_worker_id then (ZLong task_id, cbs, Some buf2)
                        else (ZFalse, cbs, Some buf2))
           else
             (let buf2 = buf\<lparr>info_ext_flags := info_ext_flags buf \<union> {SW_TASK_NONBLOCK}\<rparr>
              in if serv_task buf2 dst_worker_id then (ZLong task_id, task_callbacks, Some buf2)
                 else (ZFalse, task_callbacks, Some buf2)))"

subsection \<open>\<open>Server->heartbeat\<close>\<close>

text \<open>
  Modelled from the spec: \<open>Server::is_healthy_connection\<close> is not in the files at hand.
  The sweep "evicts (or merely reports) any connection whose last-recv time exceeds the
  configured idle threshold, skipping ... protected connections", and it evicts "every
  connection whose idle time strictly exceeds the configured threshold".
\<close>

definition is_healthy_connection :: "Server \<Rightarrow> real \<Rightarrow> Connection \<Rightarrow> bool" where
  \<comment> \<open>Modelled from the spec: \<open>Server::is_healthy_connection\<close> is missing. Protected
     connections are healthy; the others are unless idle for strictly more than the threshold\<close>
  "is_healthy_connection serv now conn \<longleftrightarrow>
     protect conn \<or> \<not> (now - last_recv_time conn > heartbeat_idle_time serv)"

text \<open>
  The lambda handed to \<open>foreach_connection\<close>, for one connection: the connection as it
  is left, whether \<open>Server::close(session_id, false)\<close> was called, and the session id
  appended to the returned array, if any.
\<close>

definition heartbeat_visit :: "Server \<Rightarrow> real \<Rightarrow> bool \<Rightarrow> Connection
    \<Rightarrow> Connection \<times> bool \<times> int option" where
  "heartbeat_visit serv now close_connection conn =
     (let sid = session_id conn
      in if sid \<le> 0 then (conn, False, None)
         else if is_healthy_connection serv now conn then (conn, False, None)
         else if close_connection then (conn\<lparr>close_force := True\<rparr>, True, Some sid)
         else (conn, False, Some sid))"

fun heartbeat_walk :: "Server \<Rightarrow> real \<Rightarrow> bool \<Rightarrow> Connection list
    \<Rightarrow> Connection list \<times> int list \<times> int list" where
  "heartbeat_walk serv now cc [] = ([], [], [])"
| "heartbeat_walk serv now cc (conn # rest) =
     (let (conn', closed, reported) = heartbeat_visit serv now cc conn;
          (rest', closes, reports) = heartbeat_walk serv now cc rest
      in (conn' # rest',
          (if closed then session_id conn # closes else closes),
          (case reported of None \<Rightarrow> reports | Some sid \<Rightarrow> sid # reports)))"

definition heartbeat :: "Server \<Rightarrow> real \<Rightarrow> bool \<Rightarrow> zval \<times> Server" where
  \<comment> \<open>\<open>now\<close> is what \<open>microtime()\<close> returns; the returned array is indexed 0, 1, ...\<close>
  "heartbeat serv now close_connection =
     (if \<not> is_started serv then (ZFalse, serv)
      else if heartbeat_check_interval serv < 1 then (ZFalse, serv)
      else
        let (conns, closes, reports) = heartbeat_walk serv now close_connection (connections serv)
        in (ZArray (zip [0 ..< length reports] (map ZLong reports)),
            serv\<lparr>connections := conns, close_calls := close_calls serv @ closes\<rparr>))"

subsection \<open>Concrete servers\<close>

definition conn7 :: Connection where
  "conn7 = \<lparr>fd = 12, session_id = 7, uid = 0, protect = False, last_recv_time = 100,
     close_force = False\<rparr>"

definition srv4 :: Server where
  \<comment> \<open>a started event worker of a server with four workers, two task workers, one connection\<close>
  "srv4 = \<lparr>is_started = True, worker_num = 4, task_worker_num = 2, is_worker = True,
     is_task_worker = False, heartbeat_check_interval = 5, heartbeat_idle_time = 10,
     connections = [conn7], close_calls = []\<rparr>"

definition evictable :: "Server \<Rightarrow> real \<Rightarrow> Connection \<Rightarrow> bool" where
  \<comment> \<open>the connections the sweep is to act on, in the words of the claim: bound, not
     protected, idle for strictly longer than the threshold\<close>
  "evictable serv now c \<longleftrightarrow>
     session_id c > 0 \<and> \<not> protect c \<and> now - last_recv_time c > heartbeat_idle_time serv"

definition sweep_conns :: "Connection list" where
  \<comment> \<open>unbound and idle; protected and idle; idle; fresh\<close>
  "sweep_conns =
     [\<lparr>fd = 3, session_id = 0, uid = 0, protect = False, last_recv_time = 10, close_force = False\<rparr>,
      \<lparr>fd = 4, session_id = 1, uid = 0, protect = True, last_recv_time = 10, close_force = False\<rparr>,
      \<lparr>fd = 5, session_id = 2, uid = 0, protect = False, last_recv_time = 10, close_force = False\<rparr>,
      \<lparr>fd = 6, session_id = 3, uid = 0, protect = False, last_recv_time = 95, close_force = False\<rparr>]"

definition callable_of :: "zval \<Rightarrow> nat option" where
  \<comment> \<open>a \<open>sw_callable_create\<close> for concrete inputs: objects are callable, nothing else is\<close>
  "callable_of z = (case z of ZObject k \<Rightarrow> Some k | _ \<Rightarrow> None)"

definition add_name :: "string list \<Rightarrow> string \<Rightarrow> int \<Rightarrow> (string \<Rightarrow> string) \<Rightarrow> string list option" where
  \<comment> \<open>an \<open>add_command\<close> for concrete inputs: a table of names that refuses a name twice\<close>
  "add_name tbl name types fn = (if name \<in> set tbl then None else Some (tbl @ [name]))"

definition cmd0 :: "string list command_state" where
  "cmd0 = \<lparr>cmd_started = False, cmd_core = [], command_callbacks = []\<rparr>"

definition call_fails :: "nat \<Rightarrow> string \<Rightarrow> zval option" where
  "call_fails cb msg = None"

definition call_gives_long :: "nat \<Rightarrow> string \<Rightarrow> zval option" where
  "call_gives_long cb msg = Some (ZLong 3)"

definition buf0 :: EventData where
  "buf0 = \<lparr>info_fd = 42, info_len = 5, info_ext_flags = {}, data = ''hello''\<rparr>"

definition task_sent :: "EventData \<Rightarrow> int \<Rightarrow> bool" where
  \<comment> \<open>a \<open>Server::task\<close> for concrete inputs: every dispatch succeeds\<close>
  "task_sent b dst = True"

definition task_not_sent :: "EventData \<Rightarrow> int \<Rightarrow> bool" where
  "task_not_sent b dst = False"

section \<open>Task payloads and task completions (ext-src/swoole_server.cc)\<close>

subsection \<open>Packing and unpacking a payload\<close>

text \<open>
  Modelled from the spec: \<open>Server::task_pack\<close> and \<open>Server::task_unpack\<close> are not in
  the files at hand. "Large payloads exceeding the inline IPC buffer bound are spooled
  through a temporary file referenced by path rather than copied inline", and a task id
  is "unique within the in-flight window, derived from (worker_id, sequence)". The
  environment holds the bound, the files, the path a new temporary file gets (\<open>None\<close>
  when none can be made) and the next task id.
\<close>

record task_env =
  inline_bound :: nat
  files :: "string \<rightharpoonup> string"
  tmpfile :: "string option"
  current_task_id :: int

definition Server_task_pack :: "task_env \<Rightarrow> string \<Rightarrow> bool \<times> EventData \<times> task_env" where
  \<comment> \<open>Modelled from the spec: \<open>Server::task_pack\<close> is missing. A fresh envelope with the
     next task id; bytes within the bound are copied inline, longer ones go to a temporary
     file whose path is the payload; \<open>False\<close> when no temporary file can be made\<close>
  "Server_task_pack env bytes =
     (let tk = \<lparr>info_fd = current_task_id env, info_len = 0, info_ext_flags = {}, data = []\<rparr>;
          env1 = env\<lparr>current_task_id := current_task_id env + 1\<rparr>
      in if length bytes \<le> inline_bound env then
           (True, tk\<lparr>info_len := length bytes, data := bytes\<rparr>, env1)
         else
           (case tmpfile env of
              None \<Rightarrow> (False, tk, env1)
            | Some path \<Rightarrow>
                (True,
                 tk\<lparr>info_len := length path, info_ext_flags := {SW_TASK_TMPFILE}, data := path\<rparr>,
                 env1\<lparr>files := (files env1)(path \<mapsto> bytes)\<rparr>)))"

definition Server_task_unpack :: "task_env \<Rightarrow> EventData \<Rightarrow> string option" where
  \<comment> \<open>Modelled from the spec: \<open>Server::task_unpack\<close> is missing. The inline bytes, or the
     content of the file the payload names; \<open>None\<close> when that file is not there\<close>
  "Server_task_unpack env tk =
     (if SW_TASK_TMPFILE \<notin> info_ext_flags tk then Some (take (info_len tk) (data tk))
      else files env (take (info_len tk) (data tk)))"

text \<open>
  The two wrappers of this file. \<open>php_var_serialize\<close> and \<open>php_var_unserialize\<close>
  belong to PHP and are passed in: \<open>serialize\<close> gives \<open>None\<close> when it leaves no
  string, \<open>unserialize\<close> gives \<open>None\<close> when it fails. \<open>tk\<close> is the caller's buffer.
\<close>

definition php_swoole_server_task_pack :: "(zval \<Rightarrow> string option) \<Rightarrow> task_env \<Rightarrow> zval
    \<Rightarrow> EventData \<Rightarrow> int \<times> EventData \<times> task_env" where
  "php_swoole_server_task_pack serialize env zdata tk =
     (let packed =
            (if \<not> ZVAL_IS_STRING zdata then
               (case serialize zdata of
                  None \<Rightarrow> None
                | Some s \<Rightarrow> Some (True, s))
             else Some (False, Z_STRVAL zdata))
      in case packed of
           None \<Rightarrow> (- 1, tk, env)
         | Some (serialized, task_data) \<Rightarrow>
             let (ok, task1, env1) = Server_task_pack env task_data;
                 task2 = (if \<not> ok then task1\<lparr>info_fd := SW_ERR, info_len := 0\<rparr> else task1);
                 task3 = (if serialized
                          then task2\<lparr>info_ext_flags := info_ext_flags task2 \<union> {SW_TASK_SERIALIZE}\<rparr>
                          else task2)
             in (info_fd task3, task3, env1))"

definition php_swoole_server_task_unpack :: "(string \<Rightarrow> zval option) \<Rightarrow> task_env \<Rightarrow> EventData
    \<Rightarrow> zval option" where
  \<comment> \<open>\<open>None\<close> is the return value false\<close>
  "php_swoole_server_task_unpack unserialize env task_result =
     (case Server_task_unpack env task_result of
        None \<Rightarrow> None
      | Some packet \<Rightarrow>
          if SW_TASK_SERIALIZE \<in> info_ext_flags task_result then unserialize packet
          else Some (ZString packet))"

subsection \<open>Coroutines waiting for task results\<close>

text \<open>
  A \<open>TaskCo\<close> lives on the stack of the coroutine that waits, and
  \<open>task_coroutine_map\<close> maps a task id to a pointer to it. The model keeps the live
  \<open>TaskCo\<close> objects in \<open>task_cos\<close>, under the id of the coroutine that owns them, and
  the map holds that id. \<open>co_result\<close> is the zval that \<open>result\<close> points to, the return
  value of the waiting call. \<open>co_list\<close> is \<open>None\<close> for the null pointer.
\<close>

record TaskCo =
  co :: nat
  co_list :: "int list option"
  co_count :: nat
  co_result :: zval

datatype log_entry =
    Task_expired int              \<comment> \<open>warning \<open>SW_ERROR_TASK_TIMEOUT\<close>, "task has expired"\<close>
  | Task_invalid int              \<comment> \<open>warning "task is invalid"\<close>
  | Require_onFinish              \<comment> \<open>warning "require 'onFinish' callback"\<close>
  | Handler_error                 \<comment> \<open>warning "onFinish handler error"\<close>

record property =
  task_coroutine_map :: "int \<rightharpoonup> nat"
  task_cos :: "nat \<rightharpoonup> TaskCo"
  task_callbacks :: "int \<rightharpoonup> nat"
  onFinish_callback :: "nat option"        \<comment> \<open>\<open>get_callback(SW_SERVER_CB_onFinish)\<close>\<close>
  calls :: "(nat \<times> int \<times> zval) list"          \<comment> \<open>callbacks invoked: callable, task id, result\<close>
  log :: "log_entry list"

datatype mem_fault = Dangling_TaskCo nat | List_index nat

definition get_task_id :: "EventData \<Rightarrow> int" where
  \<comment> \<open>\<open>Server::get_task_id\<close>: the id is the \<open>info.fd\<close> that \<open>php_swoole_server_task_pack\<close> returns\<close>
  "get_task_id req = info_fd req"

fun find_task_index :: "int list \<Rightarrow> nat \<Rightarrow> nat \<Rightarrow> int \<Rightarrow> nat option" where
  \<comment> \<open>the loop \<open>SW_LOOP_N(task_co->count)\<close> from index \<open>i\<close>: the first \<open>i < count\<close> with \<open>list[i] == task_id\<close>\<close>
  "find_task_index lst i 0 task_id = None"
| "find_task_index lst i (Suc n) task_id =
     (if lst ! i = task_id then Some i else find_task_index lst (Suc i) n task_id)"

text \<open>
  \<open>php_swoole_server_onFinish\<close>. \<open>unpacked\<close> is what
  \<open>php_swoole_server_task_unpack(zresult.ptr(), req)\<close> gave and \<open>call_ok\<close> says whether
  \<open>zend::function::call\<close> succeeds. The result is the return code, the state, and the
  coroutine on which \<open>resume()\<close> was called, if any. A map entry whose \<open>TaskCo\<close> is
  gone is a dangling pointer, and reading through it is a fault.
\<close>

definition php_swoole_server_onFinish :: "(nat \<Rightarrow> bool) \<Rightarrow> property \<Rightarrow> EventData \<Rightarrow> zval option
    \<Rightarrow> mem_fault + (int \<times> property \<times> nat option)" where
  "php_swoole_server_onFinish call_ok st req unpacked =
     (let task_id = get_task_id req
      in case unpacked of
           None \<Rightarrow> Inr (SW_ERR, st, None)
         | Some zresult \<Rightarrow>
             if SW_TASK_COROUTINE \<in> info_ext_flags req then
               (case task_coroutine_map st task_id of
                  None \<Rightarrow> Inr (SW_OK, st\<lparr>log := log st @ [Task_expired task_id]\<rparr>, None)
                | Some p \<Rightarrow>
                    (case task_cos st p of
                       None \<Rightarrow> Inl (Dangling_TaskCo p)
                     | Some task_co \<Rightarrow>
                         (case co_list task_co of
                            None \<Rightarrow>
                              Inr (SW_OK,
                                   st\<lparr>task_cos := (task_cos st)(p \<mapsto> task_co\<lparr>co_result := zresult\<rparr>)\<rparr>,
                                   Some (co task_co))
                          | Some lst \<Rightarrow>
                              if co_count task_co > length lst then Inl (List_index (length lst))
                              else
                                (case find_task_index lst 0 (co_count task_co) task_id of
                                   None \<Rightarrow>
                                     Inr (SW_OK, st\<lparr>log := log st @ [Task_invalid task_id]\<rparr>, None)
                                 | Some task_index \<Rightarrow>
                                     let res = add_index_zval (co_result task_co) task_index zresult;
                                         st1 = st\<lparr>task_cos := (task_cos st)(p \<mapsto> task_co\<lparr>co_result := res\<rparr>),
                                                 task_coroutine_map := (task_coroutine_map st)(task_id := None)\<rparr>
                                     in if php_swoole_array_length res = co_count task_co
                                        then Inr (SW_OK, st1, Some (co task_co))
                                        else Inr (SW_OK, st1, None)))))
             else
               (let cb = (if SW_TASK_CALLBACK \<in> info_ext_flags req
                          then task_callbacks st task_id
                          else onFinish_callback st);
                    flags = (if SW_TASK_CALLBACK \<in> info_ext_flags req \<and> task_callbacks st task_id = None
                             then info_ext_flags req - {SW_TASK_CALLBACK}
                             else info_ext_flags req)
                in case cb of
                     None \<Rightarrow> Inr (SW_ERR, st\<lparr>log := log st @ [Require_onFinish]\<rparr>, None)
                   | Some f \<Rightarrow>
                       let st1 = st\<lparr>calls := calls st @ [(f, task_id, zresult)]\<rparr>;
                           st2 = (if call_ok f then st1 else st1\<lparr>log := log st1 @ [Handler_error]\<rparr>);
                           st3 = (if SW_TASK_CALLBACK \<in> flags
                                  then st2\<lparr>task_callbacks := (task_callbacks st2)(task_id := None)\<rparr>
                                  else st2)
                       in Inr (SW_OK, st3, None)))"

subsection \<open>\<open>Server->taskwait\<close> in a coroutine\<close>

text \<open>
  A method that yields is two functions: the part up to \<open>yield_ex\<close>, which either
  returns or leaves the coroutine suspended on a task id, and the part that runs when the
  scheduler resumes the coroutine, with the value \<open>yield_ex\<close> returns: true after
  \<open>resume()\<close>, false after the timeout.
\<close>

datatype wait_outcome = Finished zval property | Suspended property

definition taskwait_co_begin :: "(EventData \<Rightarrow> int \<Rightarrow> bool) \<Rightarrow> Server \<Rightarrow> property \<Rightarrow> nat
    \<Rightarrow> int \<times> EventData \<Rightarrow> int \<Rightarrow> wait_outcome" where
  \<comment> \<open>\<open>cid\<close> is the current coroutine; \<open>packed\<close> is the result of \<open>php_swoole_server_task_pack\<close>\<close>
  "taskwait_co_begin serv_task serv st cid packed dst_worker_id =
     (if \<not> is_started serv then Finished ZFalse st
      else if \<not> is_worker serv then Finished ZFalse st
      else if php_swoole_server_task_check_param serv dst_worker_id < 0 then Finished ZFalse st
      else
        let (packed_id, buf0) = packed
        in if packed_id < 0 then Finished ZFalse st
           else
             let task_id = get_task_id buf0;
                 buf = buf0\<lparr>info_ext_flags := info_ext_flags buf0 \<union> {SW_TASK_NONBLOCK, SW_TASK_COROUTINE}\<rparr>;
                 task_co = \<lparr>co = cid, co_list = None, co_count = 1, co_result = ZNull\<rparr>
             in if \<not> serv_task buf dst_worker_id then Finished ZFalse st
                else Suspended (st\<lparr>task_cos := (task_cos st)(cid \<mapsto> task_co),
                                   task_coroutine_map := (task_coroutine_map st)(task_id \<mapsto> cid)\<rparr>))"

definition taskwait_co_resume :: "property \<Rightarrow> nat \<Rightarrow> int \<Rightarrow> bool \<Rightarrow> zval \<times> property" where
  \<comment> \<open>after \<open>yield_ex\<close>: erase the entry, return false or the delivered result; the \<open>TaskCo\<close> dies\<close>
  "taskwait_co_resume st cid task_id retval =
     (let st1 = st\<lparr>task_coroutine_map := (task_coroutine_map st)(task_id := None)\<rparr>;
          return_value = (case task_cos st cid of None \<Rightarrow> ZNull | Some task_co \<Rightarrow> co_result task_co);
          st2 = st1\<lparr>task_cos := (task_cos st1)(cid := None)\<rparr>
      in if \<not> retval then (ZFalse, st2) else (return_value, st2))"

subsection \<open>\<open>Server->taskCo\<close>\<close>

text \<open>
  \<open>tasks\<close> has one entry for each element of \<open>ztasks\<close>, in iteration order: the id
  that \<open>php_swoole_server_task_pack\<close> returned for it and whether \<open>Server::task\<close> took
  the envelope. The loop carries \<open>i\<close>, \<open>n_task\<close>, \<open>list\<close>, \<open>return_value\<close> and
  the map.
\<close>

fun taskCo_loop :: "nat \<Rightarrow> (int \<times> bool) list \<Rightarrow> nat \<Rightarrow> nat \<Rightarrow> int list \<Rightarrow> zval \<Rightarrow> (int \<rightharpoonup> nat)
    \<Rightarrow> nat \<times> int list \<times> zval \<times> (int \<rightharpoonup> nat)" where
  "taskCo_loop cid [] i n_task lst rv m = (n_task, lst, rv, m)"
| "taskCo_loop cid ((task_id, sent) # rest) i n_task lst rv m =
     (if task_id < 0 then
        taskCo_loop cid rest (Suc i) (n_task - 1) (lst[i := task_id]) (add_index_bool rv i False) m
      else if \<not> sent then
        taskCo_loop cid rest (Suc i) (n_task - 1) (lst[i := - 1]) (add_index_bool rv i False) m
      else
        taskCo_loop cid rest (Suc i) n_task (lst[i := task_id]) rv (m(task_id \<mapsto> cid)))"

definition taskCo_begin :: "nat \<Rightarrow> Server \<Rightarrow> property \<Rightarrow> nat \<Rightarrow> (int \<times> bool) list \<Rightarrow> wait_outcome" where
  \<comment> \<open>the first argument is \<open>SW_MAX_CONCURRENT_TASK\<close>\<close>
  "taskCo_begin SW_MAX_CONCURRENT_TASK serv st cid tasks =
     (if \<not> is_started serv then Finished ZFalse st
      else if \<not> is_worker serv then Finished ZFalse st
      else if length tasks \<ge> SW_MAX_CONCURRENT_TASK then Finished ZFalse st
      else if php_swoole_server_task_check_param serv (- 1) < 0 then Finished ZFalse st
      else
        let (n_task, lst, rv, m) =
              taskCo_loop cid tasks 0 (length tasks) (replicate (length tasks) 0) (ZArray [])
                (task_coroutine_map st)
        in if n_task = 0 then Finished ZFalse (st\<lparr>task_coroutine_map := m\<rparr>)
           else Suspended
                  (st\<lparr>task_coroutine_map := m,
                      task_cos := (task_cos st)
                        (cid \<mapsto> \<lparr>co = cid, co_list = Some lst, co_count = n_task, co_result = rv\<rparr>)\<rparr>))"

fun taskCo_timeout_loop :: "bool \<Rightarrow> int list \<Rightarrow> nat \<Rightarrow> nat \<Rightarrow> zval \<Rightarrow> (int \<rightharpoonup> nat)
    \<Rightarrow> zval \<times> (int \<rightharpoonup> nat)" where
  \<comment> \<open>\<open>for (i = ...; i < n_task; i++)\<close>, with \<open>k\<close> iterations left\<close>
  "taskCo_timeout_loop in_taskCo lst i 0 rv m = (rv, m)"
| "taskCo_timeout_loop in_taskCo lst i (Suc k) rv m =
     (if \<not> zend_hash_index_exists rv i then
        taskCo_timeout_loop in_taskCo lst (Suc i) k
          (if in_taskCo then add_index_bool rv i False else rv)
          (m(lst ! i := None))
      else taskCo_timeout_loop in_taskCo lst (Suc i) k rv m)"

definition taskCo_resume :: "property \<Rightarrow> nat \<Rightarrow> bool \<Rightarrow> bool \<Rightarrow> mem_fault + (zval \<times> property)" where
  \<comment> \<open>after \<open>yield_ex\<close>; \<open>is_called_in_taskCo\<close> is the test on the method's name\<close>
  "taskCo_resume st cid retval is_called_in_taskCo =
     (case task_cos st cid of
        None \<Rightarrow> Inl (Dangling_TaskCo cid)
      | Some task_co \<Rightarrow>
          let lst = (case co_list task_co of None \<Rightarrow> [] | Some l \<Rightarrow> l);
              n_task = co_count task_co
          in if n_task > length lst then Inl (List_index (length lst))
             else
               let (rv, m) =
                     (if \<not> retval
                      then taskCo_timeout_loop is_called_in_taskCo lst 0 n_task
                             (co_result task_co) (task_coroutine_map st)
                      else (co_result task_co, task_coroutine_map st))
               in Inr (rv, st\<lparr>task_coroutine_map := m, task_cos := (task_cos st)(cid := None)\<rparr>))"

subsection \<open>Concrete payloads, completions and joins\<close>

definition env0 :: task_env where
  "env0 = \<lparr>inline_bound = 8, files = Map.empty, tmpfile = Some ''/tmp/swoole.task.1'',
     current_task_id = 42\<rparr>"

definition toy_serialize :: "zval \<Rightarrow> string option" where
  \<comment> \<open>stands in for \<open>php_var_serialize\<close> on the one value the concrete inputs serialize\<close>
  "toy_serialize z = (if z = ZLong 7 then Some ''i:7;'' else if z = ZArray [(0, ZLong 7)]
     then Some ''a:1:{i:0;i:7;}'' else None)"

definition toy_unserialize :: "string \<Rightarrow> zval option" where
  "toy_unserialize s = (if s = ''i:7;'' then Some (ZLong 7) else if s = ''a:1:{i:0;i:7;}''
     then Some (ZArray [(0, ZLong 7)]) else None)"

definition prop0 :: property where
  "prop0 = \<lparr>task_coroutine_map = Map.empty, task_cos = Map.empty, task_callbacks = Map.empty,
     onFinish_callback = None, calls = [], log = []\<rparr>"

definition completion :: "int \<Rightarrow> EventData" where
  \<comment> \<open>the envelope of a result for a task sent in coroutine mode\<close>
  "completion task_id = \<lparr>info_fd = task_id, info_len = 2,
     info_ext_flags = {SW_TASK_NONBLOCK, SW_TASK_COROUTINE}, data = ''ok''\<rparr>"

definition all_ok :: "nat \<Rightarrow> bool" where
  "all_ok f = True"

definition completion_dropped :: "(nat \<Rightarrow> bool) \<Rightarrow> property \<Rightarrow> EventData \<Rightarrow> zval option \<Rightarrow> bool" where
  \<comment> \<open>what the claims call a discarded completion: \<open>php_swoole_server_onFinish\<close> resumes
     no coroutine and leaves the state as it was, but for the warning "task has expired"
     that it logs once the payload is unpacked\<close>
  "completion_dropped call_ok st req unpacked \<longleftrightarrow>
     php_swoole_server_onFinish call_ok st req unpacked =
       (case unpacked of
          None \<Rightarrow> Inr (SW_ERR, st, None)
        | Some z \<Rightarrow> Inr (SW_OK, st\<lparr>log := log st @ [Task_expired (get_task_id req)]\<rparr>, None))"

definition co_wait :: property where
  \<comment> \<open>coroutine 1 suspended in \<open>taskwait\<close> on task 42\<close>
  "co_wait = prop0\<lparr>task_cos := [1 \<mapsto> \<lparr>co = 1, co_list = None, co_count = 1, co_result = ZNull\<rparr>],
                  task_coroutine_map := [42 \<mapsto> 1]\<rparr>"

definition join3 :: property where
  \<comment> \<open>coroutine 1 suspended in \<open>taskCo\<close> over three tasks, of which the first was not
     dispatched and the other two got the ids 11 and 12\<close>
  "join3 = prop0\<lparr>task_coroutine_map := [11 \<mapsto> 1, 12 \<mapsto> 1],
                task_cos := [1 \<mapsto> \<lparr>co = 1, co_list = Some [- 1, 11, 12], co_count = 2,
                                  co_result = ZArray [(0, ZFalse)]\<rparr>]\<rparr>"

definition join3_early :: property where
  \<comment> \<open>\<open>join3\<close> after the result of task 11\<close>
  "join3_early = prop0\<lparr>task_coroutine_map := [12 \<mapsto> 1],
                task_cos := [1 \<mapsto> \<lparr>co = 1, co_list = Some [- 1, 11, 12], co_count = 2,
                                  co_result = ZArray [(0, ZFalse), (1, ZString ''r11'')]\<rparr>]\<rparr>"

definition join3_left :: property where
  \<comment> \<open>what \<open>taskCo\<close> leaves behind: task 12 still points to the \<open>TaskCo\<close> that is gone\<close>
  "join3_left = prop0\<lparr>task_coroutine_map := [12 \<mapsto> 1]\<rparr>"

definition join_wf :: "int list \<Rightarrow> (nat \<times> zval) list \<Rightarrow> bool" where
  \<comment> \<open>a join in progress: the task ids differ from each other, and the result array holds
     each index once and no index outside the list\<close>
  "join_wf ids a \<longleftrightarrow> distinct ids \<and> distinct (map fst a) \<and> fst ` set a \<subseteq> {..< length ids}"

definition buf_stale :: EventData where
  \<comment> \<open>a caller's buffer with leftovers of an earlier task\<close>
  "buf_stale = \<lparr>info_fd = - 7, info_len = 3, info_ext_flags = {SW_TASK_NOREPLY}, data = ''old''\<rparr>"

subsection \<open>Facts about the signal table\<close>

lemma in_bounds_signals_put [simp]: "in_bounds (signals_put s i v) j = in_bounds s j"
  by (simp add: in_bounds_def SW_SIGNO_MAX_def signals_put_def)

lemma in_bounds_update [simp]:
  "in_bounds (s\<lparr>kq_filters := k\<rparr>) j = in_bounds s j"
  "in_bounds (s\<lparr>os_handlers := h\<rparr>) j = in_bounds s j"
  "in_bounds (s\<lparr>signalfd_mask := m\<rparr>) j = in_bounds s j"
  "in_bounds (s\<lparr>procmask := m\<rparr>) j = in_bounds s j"
  "in_bounds (s\<lparr>signal_fd_open := b\<rparr>) j = in_bounds s j"
  by (simp_all add: in_bounds_def SW_SIGNO_MAX_def)

lemma signals_at_put [simp]: "in_bounds s i \<Longrightarrow> signals_at (signals_put s i v) i = v"
  by (simp add: in_bounds_def SW_SIGNO_MAX_def signals_put_def signals_at_def nat_less_iff)

lemma signals_at_update [simp]:
  "signals_at (s\<lparr>kq_filters := k\<rparr>) j = signals_at s j"
  "signals_at (s\<lparr>os_handlers := h\<rparr>) j = signals_at s j"
  "signals_at (s\<lparr>signalfd_mask := m\<rparr>) j = signals_at s j"
  "signals_at (s\<lparr>procmask := m\<rparr>) j = signals_at s j"
  "signals_at (s\<lparr>signal_fd_open := b\<rparr>) j = signals_at s j"
  by (simp_all add: signals_at_def)

lemma signalfd_setup_keeps [simp]:
  "signals (swoole_signalfd_setup cfg s) = signals s"
  "signalfd_mask (swoole_signalfd_setup cfg s) = signalfd_mask s"
  by (simp_all add: swoole_signalfd_setup_def swoole_signalfd_create_def)

lemma signalfd_setup_table [simp]:
  "in_bounds (swoole_signalfd_setup cfg s) j = in_bounds s j"
  "signals_at (swoole_signalfd_setup cfg s) j = signals_at s j"
  by (simp_all add: in_bounds_def SW_SIGNO_MAX_def signals_at_def)

lemma swoole_signal_set_out_of_bounds:
  "\<not> in_bounds s sig \<Longrightarrow> swoole_signal_set cfg s sig h safety = Inl (OutOfBounds sig)"
  by (simp add: swoole_signal_set_def swoole_signalfd_set_def swoole_signal_kqueue_set_def)

lemma swoole_signal_callback_checks_upper:
  "SW_SIGNO_MAX s \<le> sig \<Longrightarrow> swoole_signal_callback s sig = Inr Invalid_signo"
  by (simp add: swoole_signal_callback_def)

lemma swoole_signal_set_by_backend:
  "swoole_signal_set cfg s sig h safety =
     (case signal_backend cfg sig of
        Signalfd \<Rightarrow> swoole_signalfd_set cfg s sig h
      | Kqueue \<Rightarrow> swoole_signal_kqueue_set cfg s sig h
      | Classic \<Rightarrow>
          if \<not> in_bounds s sig then Inl (OutOfBounds sig)
          else swoole_signal_set4 cfg
                 (signals_put s sig \<lparr>handler = h, signo = sig, activated = True\<rparr>) sig
                 (if safety then signal_handler_safety else signal_handler_simple))"
  by (auto simp: swoole_signal_set_def signal_backend_def)

lemma kqueue_set_null:
  "in_bounds s sig \<Longrightarrow> swoole_signal_kqueue_set cfg s sig nullptr =
     Inr (nullptr,
          (signals_put (case sigaction cfg s sig SIG_DFL of None \<Rightarrow> s | Some (_, t) \<Rightarrow> t)
             sig zero_Signal)\<lparr>kq_filters := kq_filters s - {sig}\<rparr>)"
  by (simp add: swoole_signal_kqueue_set_def Let_def signals_put_def sigaction_def)

lemma kqueue_null_twice:
  assumes b: "in_bounds s sig"
  shows "\<exists>s1. swoole_signal_kqueue_set cfg s sig nullptr = Inr (nullptr, s1)
            \<and> signals_at s1 sig = zero_Signal
            \<and> swoole_signal_kqueue_set cfg s1 sig nullptr = Inr (nullptr, s1)"
proof -
  let ?s1 = "(signals_put (case sigaction cfg s sig SIG_DFL of None \<Rightarrow> s | Some (_, t) \<Rightarrow> t)
                sig zero_Signal)\<lparr>kq_filters := kq_filters s - {sig}\<rparr>"
  have b1: "in_bounds ?s1 sig"
    using b by (simp add: sigaction_def)
  have 1: "swoole_signal_kqueue_set cfg s sig nullptr = Inr (nullptr, ?s1)"
    using b by (rule kqueue_set_null)
  have 2: "signals_at ?s1 sig = zero_Signal"
    using b by (simp add: sigaction_def)
  have 3: "swoole_signal_kqueue_set cfg ?s1 sig nullptr = Inr (nullptr, ?s1)"
    unfolding kqueue_set_null [OF b1] by (simp add: sigaction_def signals_put_def)
  from 1 2 3 show ?thesis by blast
qed

lemma signalfd_set_clear:
  assumes "in_bounds s sig" and "activated (signals_at s sig)"
  shows "\<exists>s1. swoole_signalfd_set cfg s sig nullptr = Inr (nullptr, s1)
            \<and> in_bounds s1 sig \<and> signals_at s1 sig = zero_Signal
            \<and> signalfd_mask s1 = sigdelset cfg (signalfd_mask s) sig"
  using assms by (simp add: swoole_signalfd_set_def Let_def signals_put_def signals_at_def
      in_bounds_def SW_SIGNO_MAX_def nat_less_iff)

lemma signalfd_set_add:
  assumes "in_bounds s sig" and "\<not> activated (signals_at s sig)"
  shows "\<exists>s2. swoole_signalfd_set cfg s sig h = Inr (handler (signals_at s sig), s2)
            \<and> signals_at s2 sig = \<lparr>handler = h, signo = sig, activated = True\<rparr>
            \<and> signalfd_mask s2 = sigaddset cfg (signalfd_mask s) sig"
  using assms by (simp add: swoole_signalfd_set_def Let_def signals_put_def signals_at_def
      in_bounds_def SW_SIGNO_MAX_def nat_less_iff)

lemma signalfd_null_twice:
  assumes b: "in_bounds s sig" and a: "activated (signals_at s sig)"
  shows "\<exists>s1 s2. swoole_signalfd_set cfg s sig nullptr = Inr (nullptr, s1)
            \<and> signals_at s1 sig = zero_Signal
            \<and> swoole_signalfd_set cfg s1 sig nullptr = Inr (nullptr, s2)
            \<and> signals_at s2 sig = \<lparr>handler = nullptr, signo = sig, activated = True\<rparr>
            \<and> (if sigset_ok cfg sig
                then signalfd_mask s1 = signalfd_mask s - {sig}
                   \<and> signalfd_mask s2 = insert sig (signalfd_mask s)
                else signalfd_mask s1 = signalfd_mask s \<and> signalfd_mask s2 = signalfd_mask s)"
proof -
  from signalfd_set_clear [OF b a, of cfg] obtain s1 where
    1: "swoole_signalfd_set cfg s sig nullptr = Inr (nullptr, s1)"
    and b1: "in_bounds s1 sig" and z: "signals_at s1 sig = zero_Signal"
    and m1: "signalfd_mask s1 = sigdelset cfg (signalfd_mask s) sig"
    by blast
  have na: "\<not> activated (signals_at s1 sig)"
    by (simp add: z zero_Signal_def)
  from signalfd_set_add [OF b1 na, of cfg nullptr] obtain s2 where
    2: "swoole_signalfd_set cfg s1 sig nullptr = Inr (handler (signals_at s1 sig), s2)"
    and r: "signals_at s2 sig = \<lparr>handler = nullptr, signo = sig, activated = True\<rparr>"
    and m2: "signalfd_mask s2 = sigaddset cfg (signalfd_mask s1) sig"
    by blast
  have h: "handler (signals_at s1 sig) = nullptr"
    by (simp add: z zero_Signal_def)
  have m: "if sigset_ok cfg sig
           then signalfd_mask s1 = signalfd_mask s - {sig}
              \<and> signalfd_mask s2 = insert sig (signalfd_mask s)
           else signalfd_mask s1 = signalfd_mask s \<and> signalfd_mask s2 = signalfd_mask s"
    by (simp add: m1 m2 sigaddset_def sigdelset_def)
  from 1 z 2 r h m show ?thesis by auto
qed

lemma classic_set_null:
  assumes b: "in_bounds s sig"
  shows "swoole_signal_set4 cfg
           (signals_put s sig \<lparr>handler = nullptr, signo = sig, activated = True\<rparr>) sig
           (if safety then signal_handler_safety else signal_handler_simple) =
         (let t = signals_put s sig \<lparr>handler = nullptr, signo = sig, activated = True\<rparr>;
              f = (if safety then signal_handler_safety else signal_handler_simple)
          in if sigaction_ok cfg sig
             then Inr (os_handlers s sig, t\<lparr>os_handlers := (os_handlers s)(sig := f)\<rparr>)
             else Inr (nullptr, t))"
  by (simp add: swoole_signal_set4_def Let_def sigaction_def signals_put_def)

lemma classic_null_twice:
  assumes b: "in_bounds s sig"
  shows "\<exists>r1 s1 r2.
           swoole_signal_set4 cfg
             (signals_put s sig \<lparr>handler = nullptr, signo = sig, activated = True\<rparr>) sig
             (if safety then signal_handler_safety else signal_handler_simple) = Inr (r1, s1)
         \<and> in_bounds s1 sig
         \<and> signals_at s1 sig = \<lparr>handler = nullptr, signo = sig, activated = True\<rparr>
         \<and> swoole_signal_set4 cfg
             (signals_put s1 sig \<lparr>handler = nullptr, signo = sig, activated = True\<rparr>) sig
             (if safety then signal_handler_safety else signal_handler_simple) = Inr (r2, s1)
         \<and> (sigaction_ok cfg sig \<longrightarrow>
               r2 = (if safety then signal_handler_safety else signal_handler_simple))"
proof (cases "sigaction_ok cfg sig")
  case True
  let ?f = "if safety then signal_handler_safety else signal_handler_simple"
  let ?s1 = "(signals_put s sig \<lparr>handler = nullptr, signo = sig, activated = True\<rparr>)
               \<lparr>os_handlers := (os_handlers s)(sig := ?f)\<rparr>"
  have b1: "in_bounds ?s1 sig" using b by simp
  have 1: "swoole_signal_set4 cfg
             (signals_put s sig \<lparr>handler = nullptr, signo = sig, activated = True\<rparr>) sig ?f
           = Inr (os_handlers s sig, ?s1)"
    using True by (simp add: classic_set_null [OF b] Let_def)
  have 2: "signals_at ?s1 sig = \<lparr>handler = nullptr, signo = sig, activated = True\<rparr>"
    using b by simp
  have 3: "swoole_signal_set4 cfg
             (signals_put ?s1 sig \<lparr>handler = nullptr, signo = sig, activated = True\<rparr>) sig ?f
           = Inr (?f, ?s1)"
    using True by (subst classic_set_null [OF b1]) (simp add: Let_def signals_put_def)
  from b1 1 2 3 show ?thesis by blast
next
  case False
  let ?f = "if safety then signal_handler_safety else signal_handler_simple"
  let ?s1 = "signals_put s sig \<lparr>handler = nullptr, signo = sig, activated = True\<rparr>"
  have b1: "in_bounds ?s1 sig" using b by simp
  have 1: "swoole_signal_set4 cfg ?s1 sig ?f = Inr (nullptr, ?s1)"
    using False by (simp add: classic_set_null [OF b] Let_def)
  have 2: "signals_at ?s1 sig = \<lparr>handler = nullptr, signo = sig, activated = True\<rparr>"
    using b by simp
  have 3: "swoole_signal_set4 cfg
             (signals_put ?s1 sig \<lparr>handler = nullptr, signo = sig, activated = True\<rparr>) sig ?f
           = Inr (nullptr, ?s1)"
    using False by (subst classic_set_null [OF b1]) (simp add: Let_def signals_put_def)
  from b1 1 2 3 False show ?thesis by blast
qed

subsection \<open>Registering a null handler twice\<close>

text \<open>
  Claim C5 (as amended). For a signal number inside the table, registering a null
  handler twice in a row does the following, by backend.
  \<^item> kqueue: the first call zeroes the record and returns no previous handler; the
    second call returns no previous handler and leaves the whole state as it was.
  \<^item> signalfd, on an activated record: the first call zeroes the record and returns no
    previous handler; the second call also returns no previous handler, but it finds the
    record not activated and so takes the add/update branch: the record becomes
    \<open>{nullptr, signo, activated}\<close>. For a number that \<open>sigaddset\<close> and
    \<open>sigdelset\<close> accept, the first call takes the signal out of \<open>signalfd_mask\<close>
    and the second puts it in; for a number they refuse, the mask stays as it was.
  \<^item> classic: each call stores \<open>{nullptr, signo, activated}\<close> and installs the
    trampoline; the second call leaves the whole state as it was, and where \<open>sigaction\<close>
    accepts the signal it returns the trampoline the first call installed.
\<close>

theorem swoole_signal_set_null_twice:
  assumes "in_bounds s sig"
  shows "case signal_backend cfg sig of
           Kqueue \<Rightarrow>
             (\<exists>s1. swoole_signal_set cfg s sig nullptr safety = Inr (nullptr, s1)
                \<and> signals_at s1 sig = zero_Signal
                \<and> swoole_signal_set cfg s1 sig nullptr safety = Inr (nullptr, s1))
         | Signalfd \<Rightarrow>
             (activated (signals_at s sig) \<longrightarrow>
               (\<exists>s1 s2. swoole_signal_set cfg s sig nullptr safety = Inr (nullptr, s1)
                  \<and> signals_at s1 sig = zero_Signal
                  \<and> swoole_signal_set cfg s1 sig nullptr safety = Inr (nullptr, s2)
                  \<and> signals_at s2 sig = \<lparr>handler = nullptr, signo = sig, activated = True\<rparr>
                  \<and> (if sigset_ok cfg sig
                      then signalfd_mask s1 = signalfd_mask s - {sig}
                         \<and> signalfd_mask s2 = insert sig (signalfd_mask s)
                      else signalfd_mask s1 = signalfd_mask s
                         \<and> signalfd_mask s2 = signalfd_mask s)))
         | Classic \<Rightarrow>
             (\<exists>r1 s1 r2. swoole_signal_set cfg s sig nullptr safety = Inr (r1, s1)
                \<and> signals_at s1 sig = \<lparr>handler = nullptr, signo = sig, activated = True\<rparr>
                \<and> swoole_signal_set cfg s1 sig nullptr safety = Inr (r2, s1)
                \<and> (sigaction_ok cfg sig \<longrightarrow>
                      r2 = (if safety then signal_handler_safety else signal_handler_simple)))"
proof (cases "signal_backend cfg sig")
  case Signalfd
  show ?thesis
    using signalfd_null_twice [OF assms, of cfg]
    by (simp add: Signalfd swoole_signal_set_by_backend)
next
  case Kqueue
  show ?thesis
    using kqueue_null_twice [OF assms, of cfg]
    by (simp add: Kqueue swoole_signal_set_by_backend)
next
  case Classic
  from classic_null_twice [OF assms, of cfg safety] obtain r1 s1 r2 where
    1: "swoole_signal_set4 cfg
          (signals_put s sig \<lparr>handler = nullptr, signo = sig, activated = True\<rparr>) sig
          (if safety then signal_handler_safety else signal_handler_simple) = Inr (r1, s1)"
    and b1: "in_bounds s1 sig"
    and 2: "signals_at s1 sig = \<lparr>handler = nullptr, signo = sig, activated = True\<rparr>"
    and 3: "swoole_signal_set4 cfg
          (signals_put s1 sig \<lparr>handler = nullptr, signo = sig, activated = True\<rparr>) sig
          (if safety then signal_handler_safety else signal_handler_simple) = Inr (r2, s1)"
    and 4: "sigaction_ok cfg sig \<longrightarrow>
          r2 = (if safety then signal_handler_safety else signal_handler_simple)"
    by blast
  have f: "swoole_signal_set cfg s sig nullptr safety = Inr (r1, s1)"
    using assms 1 by (simp add: Classic swoole_signal_set_by_backend)
  have g: "swoole_signal_set cfg s1 sig nullptr safety = Inr (r2, s1)"
    using b1 3 by (simp add: Classic swoole_signal_set_by_backend)
  from f g 2 4 show ?thesis
    unfolding Classic by (simp only: backend.case) blast
qed

theorem swoole_signal_set_null_twice_witness:
  "(\<exists>s1. swoole_signal_set cfg_kqueue sig_init 10 nullptr True = Inr (nullptr, s1)
      \<and> signals_at s1 10 = zero_Signal
      \<and> swoole_signal_set cfg_kqueue s1 10 nullptr True = Inr (nullptr, s1))
   \<and> (\<exists>s1 s2. swoole_signal_set cfg_signalfd sig_reg10 10 nullptr True = Inr (nullptr, s1)
      \<and> signals_at s1 10 = zero_Signal
      \<and> swoole_signal_set cfg_signalfd s1 10 nullptr True = Inr (nullptr, s2)
      \<and> signals_at s2 10 = \<lparr>handler = nullptr, signo = 10, activated = True\<rparr>
      \<and> signalfd_mask s1 = {} \<and> signalfd_mask s2 = {10})
   \<and> (\<exists>s1 s2. swoole_signal_set cfg_signalfd sig_reg100 100 nullptr True = Inr (nullptr, s1)
      \<and> signals_at s1 100 = zero_Signal
      \<and> swoole_signal_set cfg_signalfd s1 100 nullptr True = Inr (nullptr, s2)
      \<and> signals_at s2 100 = \<lparr>handler = nullptr, signo = 100, activated = True\<rparr>
      \<and> signalfd_mask s1 = {} \<and> signalfd_mask s2 = {})
   \<and> (\<exists>r1 s1. swoole_signal_set cfg_classic sig_init 10 nullptr True = Inr (r1, s1)
      \<and> signals_at s1 10 = \<lparr>handler = nullptr, signo = 10, activated = True\<rparr>
      \<and> swoole_signal_set cfg_classic s1 10 nullptr True = Inr (signal_handler_safety, s1))"
proof -
  have b0: "in_bounds sig_init 10"
    by (simp add: in_bounds_def SW_SIGNO_MAX_def sig_init_def sig_table_def)
  have b1: "in_bounds sig_reg10 10"
    by (simp add: in_bounds_def SW_SIGNO_MAX_def sig_reg10_def sig_table_def)
  have b2: "in_bounds sig_reg100 100"
    by (simp add: in_bounds_def SW_SIGNO_MAX_def sig_reg100_def sig_table_def)
  have a1: "activated (signals_at sig_reg10 10)"
    by (simp add: signals_at_def sig_reg10_def sig_table_def)
  have a2: "activated (signals_at sig_reg100 100)"
    by (simp add: signals_at_def sig_reg100_def sig_table_def)
  have k: "signal_backend cfg_kqueue 10 = Kqueue"
    by (simp add: signal_backend_def cfg_kqueue_def)
  have f: "signal_backend cfg_signalfd 10 = Signalfd" "signal_backend cfg_signalfd 100 = Signalfd"
    by (simp_all add: signal_backend_def cfg_signalfd_def)
  have c: "signal_backend cfg_classic 10 = Classic"
    by (simp add: signal_backend_def cfg_classic_def)
  have ok: "sigaction_ok cfg_classic 10"
    by (simp add: cfg_classic_def)
  have so: "sigset_ok cfg_signalfd 10" "\<not> sigset_ok cfg_signalfd 100"
    by (simp_all add: cfg_signalfd_def)
  have m: "signalfd_mask sig_reg10 = {10}" "signalfd_mask sig_reg100 = {}"
    by (simp_all add: sig_reg10_def sig_reg100_def)
  show ?thesis
    using swoole_signal_set_null_twice [OF b0, of cfg_kqueue True]
      swoole_signal_set_null_twice [OF b1, of cfg_signalfd True]
      swoole_signal_set_null_twice [OF b2, of cfg_signalfd True]
      swoole_signal_set_null_twice [OF b0, of cfg_classic True]
    by (simp add: k f c a1 a2 ok so m)
qed

text \<open>
  Claim C5 as it was stated fails under the signalfd backend: with signal 10 registered,
  the first null registration clears the record and empties the mask, and the second one
  is not a no-op. It activates the record again and blocks the signal again.
\<close>

theorem signalfd_second_null_set_not_noop:
  "swoole_signal_set cfg_signalfd sig_reg10 10 nullptr True = Inr (nullptr, sig_reg10_cleared)
   \<and> swoole_signal_set cfg_signalfd sig_reg10_cleared 10 nullptr True = Inr (nullptr, sig_reg10_again)
   \<and> sig_reg10_again \<noteq> sig_reg10_cleared"
  by (simp add: swoole_signal_set_def swoole_signalfd_set_def swoole_signalfd_setup_def
      cfg_signalfd_def sig_reg10_def sig_reg10_cleared_def sig_reg10_again_def sig_table_def
      in_bounds_def SW_SIGNO_MAX_def signals_at_def signals_put_def zero_Signal_def
      sigaddset_def sigdelset_def)

subsection \<open>Signal numbers outside the table\<close>

text \<open>
  Claim C6 (not met by the code). \<open>swoole_signal_set\<close> has no range check: with a table
  of 128 entries, registering a handler for signal number 128 is not rejected under any
  backend but indexes the table out of bounds. The sibling \<open>swoole_signal_callback\<close>
  rejects the same number.
\<close>

theorem swoole_signal_set_no_range_check:
  "swoole_signal_set cfg_classic sig_init 128 (Handler 1) True = Inl (OutOfBounds 128)
   \<and> swoole_signal_set cfg_signalfd sig_init 128 (Handler 1) True = Inl (OutOfBounds 128)
   \<and> swoole_signal_set cfg_kqueue sig_init 128 (Handler 1) True = Inl (OutOfBounds 128)
   \<and> swoole_signal_callback sig_init 128 = Inr Invalid_signo"
proof -
  have nb: "\<not> in_bounds sig_init 128"
    by (simp add: in_bounds_def SW_SIGNO_MAX_def sig_init_def sig_table_def)
  have up: "SW_SIGNO_MAX sig_init \<le> 128"
    by (simp add: SW_SIGNO_MAX_def sig_init_def sig_table_def)
  show ?thesis
    by (simp add: swoole_signal_set_out_of_bounds [OF nb] swoole_signal_callback_checks_upper [OF up])
qed

section \<open>Properties of the server methods\<close>

subsection \<open>\<open>Server->bind\<close>\<close>

lemma to_uint32_nonzero: "INT32_MIN \<le> u \<Longrightarrow> u \<le> UINT32_MAX \<Longrightarrow> u \<noteq> 0 \<Longrightarrow> to_uint32 u \<noteq> 0"
proof -
  assume a: "INT32_MIN \<le> u" "u \<le> UINT32_MAX" "u \<noteq> 0"
  show ?thesis
  proof (cases "0 \<le> u")
    case True
    then have "u mod 2 ^ 32 = u" using a by (simp add: UINT32_MAX_def)
    then show ?thesis using a by (simp add: to_uint32_def)
  next
    case False
    then have "u mod 2 ^ 32 = u + 2 ^ 32"
      using a by (intro int_mod_pos_eq [where q = "-1"]) (simp_all add: INT32_MIN_def)
    then show ?thesis using a by (simp add: to_uint32_def INT32_MIN_def)
  qed
qed

lemma bind_out_of_range:
  "uid_arg > UINT32_MAX \<or> uid_arg < INT32_MIN \<Longrightarrow> bind gcv serv sid uid_arg = (False, serv)"
  by (simp add: bind_def)

lemma bind_bound:
  "gcv s sid = Some k \<Longrightarrow> uid (connections s ! k) \<noteq> 0 \<Longrightarrow> bind gcv s sid v = (False, s)"
  by (simp add: bind_def Let_def)

text \<open>
  Claim C8 (as amended). On a started server, for a connection of the table that
  \<open>get_connection_verify\<close> finds and a uid inside \<open>[INT32_MIN, UINT32_MAX]\<close>:
  \<open>bind\<close> succeeds exactly when the connection's uid is 0, and then stores the uid
  cast to \<open>uint32_t\<close>; when the uid is not 0 it returns false and changes nothing; and
  after an attempt with a uid other than 0 every further attempt on that connection
  fails and changes nothing.
\<close>

theorem bind_first_writer:
  assumes st: "is_started serv" and g: "gcv serv sid = Some k"
    and kl: "k < length (connections serv)"
    and rng: "INT32_MIN \<le> u" "u \<le> UINT32_MAX"
  shows "fst (bind gcv serv sid u) = (uid (connections serv ! k) = 0)
     \<and> (uid (connections serv ! k) = 0 \<longrightarrow>
          snd (bind gcv serv sid u) =
            serv\<lparr>connections := (connections serv)[k := (connections serv ! k)\<lparr>uid := to_uint32 u\<rparr>]\<rparr>)
     \<and> (uid (connections serv ! k) \<noteq> 0 \<longrightarrow> snd (bind gcv serv sid u) = serv)
     \<and> (u \<noteq> 0 \<and> gcv (snd (bind gcv serv sid u)) sid = Some k \<longrightarrow>
          bind gcv (snd (bind gcv serv sid u)) sid v = (False, snd (bind gcv serv sid u)))"
proof -
  have nz: "u \<noteq> 0 \<Longrightarrow> to_uint32 u \<noteq> 0"
    using rng by (rule to_uint32_nonzero)
  have r: "\<not> (u > UINT32_MAX \<or> u < INT32_MIN)" using rng by simp
  show ?thesis
  proof (cases "uid (connections serv ! k) = 0")
    case True
    let ?s1 = "serv\<lparr>connections := (connections serv)[k := (connections serv ! k)\<lparr>uid := to_uint32 u\<rparr>]\<rparr>"
    have b: "bind gcv serv sid u = (True, ?s1)"
      using True st g r by (simp add: bind_def Let_def)
    have again: "bind gcv ?s1 sid v = (False, ?s1)"
      if "u \<noteq> 0" "gcv ?s1 sid = Some k"
    proof (rule bind_bound [where gcv = gcv and s = ?s1 and sid = sid and k = k, OF that(2)])
      have "connections ?s1 ! k = (connections serv ! k)\<lparr>uid := to_uint32 u\<rparr>"
        using kl by simp
      then show "uid (connections ?s1 ! k) \<noteq> 0"
        using nz [OF that(1)] by simp
    qed
    show ?thesis using True again by (simp add: b)
  next
    case False
    have b: "bind gcv serv sid u = (False, serv)"
      using g False by (rule bind_bound)
    have again: "bind gcv serv sid v = (False, serv)"
      using g False by (rule bind_bound)
    show ?thesis using False again by (simp add: b)
  qed
qed

theorem bind_first_writer_witness:
  "fst (bind find_session srv4 7 5) = True
   \<and> snd (bind find_session srv4 7 5) = srv4\<lparr>connections := [conn7\<lparr>uid := 5\<rparr>]\<rparr>
   \<and> bind find_session (snd (bind find_session srv4 7 5)) 7 9
        = (False, snd (bind find_session srv4 7 5))"
proof -
  have g: "find_session srv4 7 = Some 0"
    by (simp add: find_session_def srv4_def conn7_def)
  have st: "is_started srv4" by (simp add: srv4_def)
  have r: "INT32_MIN \<le> 5" "5 \<le> UINT32_MAX" by (simp_all add: INT32_MIN_def UINT32_MAX_def)
  have g1: "find_session (srv4\<lparr>connections := [conn7\<lparr>uid := 5\<rparr>]\<rparr>) 7 = Some 0"
    by (simp add: find_session_def srv4_def conn7_def)
  have c: "connections srv4 = [conn7]" "uid conn7 = 0" by (simp_all add: srv4_def conn7_def)
  have l: "0 < length (connections srv4)" by (simp add: c)
  note t = bind_first_writer [where gcv = find_session and serv = srv4 and sid = 7 and k = 0
        and u = 5 and v = 9, OF st g l r]
  from t have 1: "fst (bind find_session srv4 7 5) = True"
    by (simp add: c)
  from t have 2: "snd (bind find_session srv4 7 5) = srv4\<lparr>connections := [conn7\<lparr>uid := 5\<rparr>]\<rparr>"
    by (simp add: c to_uint32_def)
  from t have 3: "find_session (snd (bind find_session srv4 7 5)) 7 = Some 0 \<Longrightarrow>
      bind find_session (snd (bind find_session srv4 7 5)) 7 9
        = (False, snd (bind find_session srv4 7 5))"
  proof -
    assume a: "find_session (snd (bind find_session srv4 7 5)) 7 = Some 0"
    have n: "(5::int) \<noteq> 0" by simp
    from t n a show ?thesis by blast
  qed
  have 4: "find_session (snd (bind find_session srv4 7 5)) 7 = Some 0"
    unfolding 2 by (rule g1)
  from 1 2 3 [OF 4] show ?thesis by simp
qed

text \<open>
  Claim C8 as it was stated fails twice: on an unbound connection \<open>bind\<close> with a uid
  above \<open>UINT32_MAX\<close> is refused by the range guard, and \<open>bind\<close> with uid 0
  succeeds and leaves the connection unbound, so that a second \<open>bind\<close> succeeds too.
\<close>

theorem bind_not_iff_unbound:
  "uid (connections srv4 ! 0) = 0
   \<and> find_session srv4 7 = Some 0
   \<and> fst (bind find_session srv4 7 4294967296) = False
   \<and> fst (bind find_session srv4 7 0) = True
   \<and> fst (bind find_session (snd (bind find_session srv4 7 0)) 7 5) = True"
  by (simp add: bind_def find_session_def srv4_def conn7_def UINT32_MAX_def INT32_MIN_def to_uint32_def Let_def)

subsection \<open>The user-supplied dispatch function\<close>

lemma to_int_id: "INT32_MIN \<le> x \<Longrightarrow> x < 2 ^ 31 \<Longrightarrow> to_int x = x"
  by (simp add: to_int_def INT32_MIN_def)

lemma to_int_minus_one: "to_int (- 1) = - 1"
  by (simp add: to_int_def)

text \<open>
  Claim C2 (as amended). Whenever the value the callback returned, converted by
  \<open>zval_get_long\<close>, fits a C \<open>int\<close>, the worker id that the wrapper returns is below
  \<open>worker_num\<close>. It is -1 when the call failed, when the callback returned null and
  when it returned an id of \<open>worker_num\<close> or more; otherwise it is the callback's own
  value, which is a worker id in \<open>[0, worker_num)\<close> or a negative number handed through
  as it is (the file registers the constants \<open>SWOOLE_DISPATCH_RESULT_*\<close> for a
  callback to return).
\<close>

theorem dispatch_func_result:
  assumes fits: "\<And>r. call = Returned r \<Longrightarrow> r \<noteq> ZNull \<Longrightarrow> zgl r < int (worker_num serv)
                   \<Longrightarrow> INT32_MIN \<le> zgl r \<and> zgl r < 2 ^ 31"
  shows "php_swoole_server_dispatch_func zgl serv call < int (worker_num serv)
     \<and> php_swoole_server_dispatch_func zgl serv call =
         (case call of
            Call_failed \<Rightarrow> - 1
          | Returned r \<Rightarrow> if r = ZNull \<or> zgl r \<ge> int (worker_num serv) then - 1 else zgl r)"
proof (cases call)
  case Call_failed
  then show ?thesis
    by (simp add: php_swoole_server_dispatch_func_def to_int_minus_one)
next
  case (Returned r)
  show ?thesis
  proof (cases "r = ZNull \<or> zgl r \<ge> int (worker_num serv)")
    case True
    then show ?thesis using Returned
      by (auto simp: php_swoole_server_dispatch_func_def to_int_minus_one Let_def)
  next
    case False
    then have "INT32_MIN \<le> zgl r \<and> zgl r < 2 ^ 31"
      using fits [OF Returned] by simp
    then have "to_int (zgl r) = zgl r" by (simp add: to_int_id)
    then show ?thesis using Returned False
      by (simp add: php_swoole_server_dispatch_func_def Let_def)
  qed
qed

theorem dispatch_func_result_witness:
  "php_swoole_server_dispatch_func long_of_zval srv4 (Returned (ZLong 2)) = 2
   \<and> php_swoole_server_dispatch_func long_of_zval srv4 (Returned (ZLong 4)) = - 1
   \<and> php_swoole_server_dispatch_func long_of_zval srv4 (Returned ZNull) = - 1
   \<and> php_swoole_server_dispatch_func long_of_zval srv4 Call_failed = - 1
   \<and> php_swoole_server_dispatch_func long_of_zval srv4 (Returned (ZLong (- 3))) = - 3"
  using dispatch_func_result [of "Returned (ZLong 2)" long_of_zval srv4]
    dispatch_func_result [of "Returned (ZLong 4)" long_of_zval srv4]
    dispatch_func_result [of "Returned ZNull" long_of_zval srv4]
    dispatch_func_result [of Call_failed long_of_zval srv4]
    dispatch_func_result [of "Returned (ZLong (- 3))" long_of_zval srv4]
  by (simp add: long_of_zval_def srv4_def INT32_MIN_def)

text \<open>
  Claim C2 as it was stated fails: with four workers, a callback that returns -2 makes
  the wrapper return -2, which is neither a worker id nor the fallback -1.
\<close>

theorem dispatch_func_negative_passes:
  "php_swoole_server_dispatch_func long_of_zval srv4 (Returned (ZLong (- 2))) = - 2
   \<and> \<not> (0 \<le> php_swoole_server_dispatch_func long_of_zval srv4 (Returned (ZLong (- 2))))
   \<and> php_swoole_server_dispatch_func long_of_zval srv4 (Returned (ZLong (- 2))) \<noteq> - 1"
  by (simp add: php_swoole_server_dispatch_func_def long_of_zval_def srv4_def to_int_def)

text \<open>
  The return statement narrows the 64-bit \<open>worker_id\<close> to \<open>int\<close> after the range
  test: a negative value far below \<open>INT32_MIN\<close> passes the test and comes out as a
  non-negative number.
\<close>

lemma dispatch_func_truncates:
  "php_swoole_server_dispatch_func long_of_zval srv4 (Returned (ZLong (- 4294967291))) = 5"
  by (simp add: php_swoole_server_dispatch_func_def long_of_zval_def srv4_def to_int_def)

subsection \<open>\<open>Server->addCommand\<close>\<close>

text \<open>
  Claim C9. \<open>addCommand\<close> returns false and leaves the state as it is whenever the
  mask of accepted process types has a bit of \<open>REACTOR_THREAD\<close>; on a server that has
  not started, with a mask free of it, a callable handler and a core that accepts the
  command, it registers the command. The registered handler answers with the payload
  \<open>{"data": "failed to call function", "code": -1}\<close> when the call fails, with
  \<open>{"data": "wrong return type", "code": -2}\<close> when the callback returns something
  that is not a string, and with the callback's string otherwise.
\<close>

theorem addCommand_reactor_thread:
  \<open>(accepted_process_types AND REACTOR_THREAD \<noteq> 0 \<longrightarrow>
      addCommand REACTOR_THREAD scc call add_command st name accepted_process_types zfn = (False, st))
   \<and> (\<not> cmd_started st \<and> accepted_process_types AND REACTOR_THREAD = 0 \<and> scc zfn = Some cb
        \<and> add_command (cmd_core st) name accepted_process_types (command_handler call cb) = Some core'
      \<longrightarrow> addCommand REACTOR_THREAD scc call add_command st name accepted_process_types zfn
            = (True, st\<lparr>cmd_core := core', command_callbacks := command_callbacks st @ [cb]\<rparr>))
   \<and> (call cb msg = None \<longrightarrow>
        command_handler call cb msg = ''{"data": "failed to call function", "code": -1}'')
   \<and> (call cb msg = Some rv \<and> \<not> ZVAL_IS_STRING rv \<longrightarrow>
        command_handler call cb msg = ''{"data": "wrong return type", "code": -2}'')
   \<and> (call cb msg = Some (ZString s) \<longrightarrow> command_handler call cb msg = s)\<close>
  by (auto simp: addCommand_def command_handler_def ZVAL_IS_STRING_def Z_STRVAL_def)

theorem addCommand_reactor_thread_witness:
  \<open>addCommand 4 callable_of call_fails add_name cmd0 ''stats'' 4 (ZObject 1) = (False, cmd0)
   \<and> addCommand 4 callable_of call_fails add_name cmd0 ''stats'' 12 (ZObject 1) = (False, cmd0)
   \<and> addCommand 4 callable_of call_fails add_name cmd0 ''stats'' 8 (ZObject 1)
        = (True, cmd0\<lparr>cmd_core := [''stats''], command_callbacks := [1]\<rparr>)
   \<and> command_handler call_fails 1 ''x'' = ''{"data": "failed to call function", "code": -1}''
   \<and> command_handler call_gives_long 1 ''x'' = ''{"data": "wrong return type", "code": -2}''\<close>
proof -
  have a: "(4::int) AND 4 \<noteq> 0" "(12::int) AND 4 \<noteq> 0" "(8::int) AND 4 = 0" by simp_all
  have ok: "\<not> cmd_started cmd0" "callable_of (ZObject 1) = Some 1"
    "add_name (cmd_core cmd0) ''stats'' 8 (command_handler call_fails 1) = Some [''stats'']"
    "command_callbacks cmd0 @ [1] = [1]"
    by (simp_all add: cmd0_def callable_of_def add_name_def)
  have c: "call_fails 1 ''x'' = None" "call_gives_long 1 ''x'' = Some (ZLong 3)"
    "\<not> ZVAL_IS_STRING (ZLong 3)"
    by (simp_all add: call_fails_def call_gives_long_def ZVAL_IS_STRING_def)
  note t4 = addCommand_reactor_thread [where accepted_process_types = 4 and REACTOR_THREAD = 4
      and scc = callable_of and call = call_fails and add_command = add_name and st = cmd0
      and name = "''stats''" and zfn = "ZObject 1" and cb = 1 and msg = "''x''"]
  note t12 = addCommand_reactor_thread [where accepted_process_types = 12 and REACTOR_THREAD = 4
      and scc = callable_of and call = call_fails and add_command = add_name and st = cmd0
      and name = "''stats''" and zfn = "ZObject 1"]
  note t8 = addCommand_reactor_thread [where accepted_process_types = 8 and REACTOR_THREAD = 4
      and scc = callable_of and call = call_fails and add_command = add_name and st = cmd0
      and name = "''stats''" and zfn = "ZObject 1" and cb = 1 and core' = "[''stats'']"]
  note tl = addCommand_reactor_thread [where accepted_process_types = 4 and REACTOR_THREAD = 4
      and scc = callable_of and call = call_gives_long and add_command = add_name and st = cmd0
      and name = "''stats''" and zfn = "ZObject 1" and cb = 1 and msg = "''x''"]
  from t4 a have 1: "addCommand 4 callable_of call_fails add_name cmd0 ''stats'' 4 (ZObject 1) = (False, cmd0)"
    by blast
  from t12 a have 2: "addCommand 4 callable_of call_fails add_name cmd0 ''stats'' 12 (ZObject 1) = (False, cmd0)"
    by blast
  from t8 a ok have 3: "addCommand 4 callable_of call_fails add_name cmd0 ''stats'' 8 (ZObject 1)
        = (True, cmd0\<lparr>cmd_core := [''stats''], command_callbacks := [1]\<rparr>)"
    by simp
  have 4: \<open>command_handler call_fails 1 ''x'' = ''{"data": "failed to call function", "code": -1}''\<close>
    using t4 [THEN conjunct2, THEN conjunct2, THEN conjunct1] c(1) by (rule mp)
  have cc: "call_gives_long 1 ''x'' = Some (ZLong 3) \<and> \<not> ZVAL_IS_STRING (ZLong 3)"
    using c(2,3) by (rule conjI)
  have 5: \<open>command_handler call_gives_long 1 ''x'' = ''{"data": "wrong return type", "code": -2}''\<close>
    using tl [where rv = "ZLong 3", THEN conjunct2, THEN conjunct2, THEN conjunct2, THEN conjunct1] cc
    by (rule mp)
  show ?thesis
    by (intro conjI 1 2 3 4 5)
qed

subsection \<open>\<open>Server->task\<close>\<close>

text \<open>
  Claim C10. \<open>task\<close> returns false, registers nothing and hands nothing to
  \<open>Server::task\<close> unless the server has started, the parameters pass
  \<open>php_swoole_server_task_check_param\<close> and the payload was packed. When they do:
  \<^item> a caller that is not an event worker hands over the envelope with
    \<open>SW_TASK_NOREPLY\<close> and \<open>SW_TASK_NONBLOCK\<close> added, and the callback table is left
    as it is, whatever the callback argument;
  \<^item> an event worker with a callback argument that is true and callable stores the
    callable under the task id and hands over the envelope with \<open>SW_TASK_CALLBACK\<close> and
    \<open>SW_TASK_NONBLOCK\<close> added; when the argument is true and not callable the method
    returns false and hands nothing over;
  \<^item> an event worker with no callback argument, or one that is not true, hands over the
    envelope with \<open>SW_TASK_NONBLOCK\<close> added and leaves the table as it is.

  In each case where the envelope is handed over, the method returns the task id if
  \<open>Server::task\<close> succeeds and false if it fails. So the table changes for event
  workers only.
\<close>

theorem task_noreply_and_result:
  "(\<not> (is_started serv \<and> php_swoole_server_task_check_param serv dst = SW_OK \<and> 0 \<le> task_id)
      \<longrightarrow> task scc serv_task serv cbs (task_id, buf) dst zfn = (ZFalse, cbs, None))
   \<and> (is_started serv \<and> php_swoole_server_task_check_param serv dst = SW_OK \<and> 0 \<le> task_id
      \<longrightarrow>
        (\<not> is_worker serv \<longrightarrow>
           task scc serv_task serv cbs (task_id, buf) dst zfn =
             (let b = buf\<lparr>info_ext_flags := info_ext_flags buf \<union> {SW_TASK_NOREPLY, SW_TASK_NONBLOCK}\<rparr>
              in (if serv_task b dst then ZLong task_id else ZFalse, cbs, Some b)))
      \<and> (is_worker serv \<and> zfn = Some f \<and> zval_is_true f \<and> scc f = Some cb \<longrightarrow>
           task scc serv_task serv cbs (task_id, buf) dst zfn =
             (let b = buf\<lparr>info_ext_flags := info_ext_flags buf \<union> {SW_TASK_CALLBACK, SW_TASK_NONBLOCK}\<rparr>
              in (if serv_task b dst then ZLong task_id else ZFalse, cbs(task_id \<mapsto> cb), Some b)))
      \<and> (is_worker serv \<and> zfn = Some f \<and> zval_is_true f \<and> scc f = None \<longrightarrow>
           task scc serv_task serv cbs (task_id, buf) dst zfn = (ZFalse, cbs, None))
      \<and> (is_worker serv \<and> (zfn = None \<or> \<not> zval_is_true (the zfn)) \<longrightarrow>
           task scc serv_task serv cbs (task_id, buf) dst zfn =
             (let b = buf\<lparr>info_ext_flags := info_ext_flags buf \<union> {SW_TASK_NONBLOCK}\<rparr>
              in (if serv_task b dst then ZLong task_id else ZFalse, cbs, Some b))))
   \<and> (fst (snd (task scc serv_task serv cbs (task_id, buf) dst zfn)) \<noteq> cbs \<longrightarrow> is_worker serv)"
proof -
  have c: "php_swoole_server_task_check_param serv dst = SW_OK
         \<or> php_swoole_server_task_check_param serv dst = SW_ERR"
    by (simp add: php_swoole_server_task_check_param_def)
  have 1: "task scc serv_task serv cbs (task_id, buf) dst zfn = (ZFalse, cbs, None)"
    if "\<not> (is_started serv \<and> php_swoole_server_task_check_param serv dst = SW_OK \<and> 0 \<le> task_id)"
    using that c by (auto simp: task_def SW_OK_def SW_ERR_def)
  have 2: "task scc serv_task serv cbs (task_id, buf) dst zfn =
             (let b = buf\<lparr>info_ext_flags := info_ext_flags buf \<union> {SW_TASK_NOREPLY, SW_TASK_NONBLOCK}\<rparr>
              in (if serv_task b dst then ZLong task_id else ZFalse, cbs, Some b))"
    if "is_started serv" "php_swoole_server_task_check_param serv dst = SW_OK" "0 \<le> task_id"
      "\<not> is_worker serv"
    using that by (simp add: task_def SW_OK_def Let_def insert_commute)
  have 3: "task scc serv_task serv cbs (task_id, buf) dst zfn =
             (let b = buf\<lparr>info_ext_flags := info_ext_flags buf \<union> {SW_TASK_CALLBACK, SW_TASK_NONBLOCK}\<rparr>
              in (if serv_task b dst then ZLong task_id else ZFalse, cbs(task_id \<mapsto> cb), Some b))"
    if "is_started serv" "php_swoole_server_task_check_param serv dst = SW_OK" "0 \<le> task_id"
      "is_worker serv" "zfn = Some f" "zval_is_true f" "scc f = Some cb"
    using that by (simp add: task_def SW_OK_def Let_def insert_commute)
  have 4: "task scc serv_task serv cbs (task_id, buf) dst zfn = (ZFalse, cbs, None)"
    if "is_started serv" "php_swoole_server_task_check_param serv dst = SW_OK" "0 \<le> task_id"
      "is_worker serv" "zfn = Some f" "zval_is_true f" "scc f = None"
    using that by (simp add: task_def SW_OK_def Let_def)
  have 5: "task scc serv_task serv cbs (task_id, buf) dst zfn =
             (let b = buf\<lparr>info_ext_flags := info_ext_flags buf \<union> {SW_TASK_NONBLOCK}\<rparr>
              in (if serv_task b dst then ZLong task_id else ZFalse, cbs, Some b))"
    if "is_started serv" "php_swoole_server_task_check_param serv dst = SW_OK" "0 \<le> task_id"
      "is_worker serv" "zfn = None \<or> \<not> zval_is_true (the zfn)"
    using that by (auto simp: task_def SW_OK_def Let_def)
  have 6: "is_worker serv"
    if "fst (snd (task scc serv_task serv cbs (task_id, buf) dst zfn)) \<noteq> cbs"
  proof (rule ccontr)
    assume nw: "\<not> is_worker serv"
    show False
    proof (cases "is_started serv \<and> php_swoole_server_task_check_param serv dst = SW_OK \<and> 0 \<le> task_id")
      case True
      then show False using that 2 nw by (simp add: Let_def)
    next
      case False
      then show False using that 1 by simp
    qed
  qed
  show ?thesis
    by (intro conjI impI; (elim conjE)?; (rule 1 2 3 4 5 6; assumption))
qed

theorem task_noreply_and_result_witness:
  "task callable_of task_sent (srv4\<lparr>is_worker := False\<rparr>) Map.empty (42, buf0) 1 (Some (ZObject 1))
     = (ZLong 42, Map.empty,
        Some (buf0\<lparr>info_ext_flags := {SW_TASK_NOREPLY, SW_TASK_NONBLOCK}\<rparr>))
   \<and> task callable_of task_sent srv4 Map.empty (42, buf0) 1 (Some (ZObject 1))
     = (ZLong 42, [42 \<mapsto> 1],
        Some (buf0\<lparr>info_ext_flags := {SW_TASK_CALLBACK, SW_TASK_NONBLOCK}\<rparr>))
   \<and> task callable_of task_sent srv4 Map.empty (42, buf0) 1 (Some (ZString ''strlen''))
     = (ZFalse, Map.empty, None)
   \<and> task callable_of task_not_sent srv4 Map.empty (42, buf0) (- 1) None
     = (ZFalse, Map.empty, Some (buf0\<lparr>info_ext_flags := {SW_TASK_NONBLOCK}\<rparr>))
   \<and> task callable_of task_sent srv4 Map.empty (42, buf0) 2 None = (ZFalse, Map.empty, None)"
proof -
  have st: "is_started srv4" "is_started (srv4\<lparr>is_worker := False\<rparr>)"
    "is_worker srv4" "\<not> is_worker (srv4\<lparr>is_worker := False\<rparr>)"
    by (simp_all add: srv4_def)
  have cp: "php_swoole_server_task_check_param srv4 1 = SW_OK"
    "php_swoole_server_task_check_param (srv4\<lparr>is_worker := False\<rparr>) 1 = SW_OK"
    "php_swoole_server_task_check_param srv4 (- 1) = SW_OK"
    "php_swoole_server_task_check_param srv4 2 \<noteq> SW_OK"
    by (simp_all add: php_swoole_server_task_check_param_def srv4_def SW_OK_def SW_ERR_def)
  have cb: "zval_is_true (ZObject 1)" "callable_of (ZObject 1) = Some 1"
    "zval_is_true (ZString ''strlen'')" "callable_of (ZString ''strlen'') = None"
    by (simp_all add: zval_is_true_def callable_of_def)
  have fl: "info_ext_flags buf0 = {}" by (simp add: buf0_def)
  have pos: "(0::int) \<le> 42" by simp
  note t = task_noreply_and_result [where task_id = 42 and buf = buf0 and cbs = Map.empty
      and scc = callable_of]
  have 1: "task callable_of task_sent (srv4\<lparr>is_worker := False\<rparr>) Map.empty (42, buf0) 1 (Some (ZObject 1))
     = (ZLong 42, Map.empty, Some (buf0\<lparr>info_ext_flags := {SW_TASK_NOREPLY, SW_TASK_NONBLOCK}\<rparr>))"
    using t [where serv = "srv4\<lparr>is_worker := False\<rparr>" and dst = 1 and serv_task = task_sent
        and zfn = "Some (ZObject 1)" and f = "ZObject 1" and cb = 1] st cp pos
    by (simp add: Let_def fl task_sent_def)
  have 2: "task callable_of task_sent srv4 Map.empty (42, buf0) 1 (Some (ZObject 1))
     = (ZLong 42, [42 \<mapsto> 1], Some (buf0\<lparr>info_ext_flags := {SW_TASK_CALLBACK, SW_TASK_NONBLOCK}\<rparr>))"
    using t [where serv = srv4 and dst = 1 and serv_task = task_sent
        and zfn = "Some (ZObject 1)" and f = "ZObject 1" and cb = 1] st cp cb pos
    by (simp add: Let_def fl task_sent_def)
  have 3: "task callable_of task_sent srv4 Map.empty (42, buf0) 1 (Some (ZString ''strlen''))
     = (ZFalse, Map.empty, None)"
    using t [where serv = srv4 and dst = 1 and serv_task = task_sent
        and zfn = "Some (ZString ''strlen'')" and f = "ZString ''strlen''" and cb = 1] st cp cb pos
    by simp
  have 4: "task callable_of task_not_sent srv4 Map.empty (42, buf0) (- 1) None
     = (ZFalse, Map.empty, Some (buf0\<lparr>info_ext_flags := {SW_TASK_NONBLOCK}\<rparr>))"
    using t [where serv = srv4 and dst = "- 1" and serv_task = task_not_sent
        and zfn = None and f = "ZObject 1" and cb = 1] st cp pos
    by (simp add: Let_def fl task_not_sent_def)
  have 5: "task callable_of task_sent srv4 Map.empty (42, buf0) 2 None = (ZFalse, Map.empty, None)"
    using t [where serv = srv4 and dst = 2 and serv_task = task_sent
        and zfn = None and f = "ZObject 1" and cb = 1] cp
    by simp
  show ?thesis by (intro conjI 1 2 3 4 5)
qed

subsection \<open>\<open>Server->heartbeat\<close>\<close>

lemma heartbeat_visit_eq:
  "heartbeat_visit serv now cc c =
     (if evictable serv now c
      then (if cc then c\<lparr>close_force := True\<rparr> else c, cc, Some (session_id c))
      else (c, False, None))"
  by (auto simp: heartbeat_visit_def is_healthy_connection_def evictable_def Let_def)

lemma heartbeat_walk_eq:
  "heartbeat_walk serv now cc conns =
     (map (\<lambda>c. if cc \<and> evictable serv now c then c\<lparr>close_force := True\<rparr> else c) conns,
      (if cc then map session_id (filter (evictable serv now) conns) else []),
      map session_id (filter (evictable serv now) conns))"
  by (induction conns) (simp_all add: heartbeat_visit_eq)

text \<open>
  Claim C7. On a started server with a heartbeat interval of at least 1, the sweep acts
  on exactly the connections that are bound (session id above 0), not protected and idle
  for strictly longer than the threshold: their session ids, in table order, are the
  returned array, and when \<open>close_connection\<close> is set each of them gets
  \<open>close_force\<close> and is handed to \<open>Server::close\<close>. Every other connection,
  so every connection with a session id of 0 or less and every protected one, is left as
  it is and is not in the array.
\<close>

theorem heartbeat_sweep:
  assumes "is_started serv" and "1 \<le> heartbeat_check_interval serv"
  shows "heartbeat serv now cc =
     (let reported = map session_id (filter (evictable serv now) (connections serv))
      in (ZArray (zip [0 ..< length reported] (map ZLong reported)),
          serv\<lparr>connections :=
                  map (\<lambda>c. if cc \<and> evictable serv now c then c\<lparr>close_force := True\<rparr> else c)
                    (connections serv),
               close_calls := close_calls serv @ (if cc then reported else [])\<rparr>))"
  using assms by (simp add: heartbeat_def heartbeat_walk_eq Let_def)

theorem heartbeat_sweep_witness:
  "heartbeat (srv4\<lparr>connections := sweep_conns\<rparr>) 100 True =
     (ZArray [(0, ZLong 2)],
      srv4\<lparr>connections := sweep_conns[2 := (sweep_conns ! 2)\<lparr>close_force := True\<rparr>],
           close_calls := [2]\<rparr>)"
proof -
  have s: "is_started (srv4\<lparr>connections := sweep_conns\<rparr>)"
    "1 \<le> heartbeat_check_interval (srv4\<lparr>connections := sweep_conns\<rparr>)"
    by (simp_all add: srv4_def)
  show ?thesis
    unfolding heartbeat_sweep [OF s]
    by (simp add: srv4_def sweep_conns_def evictable_def Let_def)
qed

section \<open>Properties of task payloads and completions\<close>

subsection \<open>Packing and unpacking\<close>

lemma Server_task_roundtrip:
  assumes "Server_task_pack env bytes = (True, tk, env')"
  shows "Server_task_unpack env' tk = Some bytes"
    and "SW_TASK_SERIALIZE \<notin> info_ext_flags tk"
    and "SW_TASK_TMPFILE \<in> info_ext_flags tk \<longleftrightarrow> inline_bound env < length bytes"
    and "info_fd tk = current_task_id env"
  using assms
  by (auto simp: Server_task_pack_def Server_task_unpack_def Let_def split: if_splits option.splits)

lemma Server_task_unpack_flags:
  "Server_task_unpack env (tk\<lparr>info_ext_flags := insert SW_TASK_SERIALIZE (info_ext_flags tk)\<rparr>)
     = Server_task_unpack env tk"
  by (simp add: Server_task_unpack_def)

lemma Server_task_pack_failed:
  "Server_task_pack env bytes = (False, tk, env') \<Longrightarrow> tk = \<lparr>info_fd = current_task_id env, info_len = 0, info_ext_flags = {}, data = []\<rparr>"
  by (auto simp: Server_task_pack_def Let_def split: if_splits option.splits)

lemma task_pack_unpack_if_packed:
  assumes p: "php_swoole_server_task_pack serialize env zdata tk0 = (task_id, tk, env')"
    and ok: "0 \<le> task_id"
    and ser: "\<And>s. \<not> ZVAL_IS_STRING zdata \<Longrightarrow> serialize zdata = Some s
                \<Longrightarrow> unserialize s = Some zdata"
  shows "php_swoole_server_task_unpack unserialize env' tk = Some zdata
       \<and> (SW_TASK_SERIALIZE \<in> info_ext_flags tk \<longleftrightarrow> \<not> ZVAL_IS_STRING zdata)
       \<and> (SW_TASK_TMPFILE \<in> info_ext_flags tk \<longleftrightarrow>
            inline_bound env < length (if ZVAL_IS_STRING zdata then Z_STRVAL zdata
                                        else the (serialize zdata)))"
proof (cases "ZVAL_IS_STRING zdata")
  case True
  then obtain s where z: "zdata = ZString s"
    by (cases zdata) (simp_all add: ZVAL_IS_STRING_def)
  obtain b t e where sp: "Server_task_pack env s = (b, t, e)"
    by (cases "Server_task_pack env s") auto
  show ?thesis
  proof (cases b)
    case True
    have sp': "Server_task_pack env s = (True, t, e)" using sp True by simp
    have "tk = t" "env' = e"
      using p sp True by (simp_all add: php_swoole_server_task_pack_def z ZVAL_IS_STRING_def Z_STRVAL_def)
    then show ?thesis
      using Server_task_roundtrip [OF sp']
      by (simp add: php_swoole_server_task_unpack_def z ZVAL_IS_STRING_def Z_STRVAL_def)
  next
    case False
    have "task_id = SW_ERR"
      using p sp False by (auto simp: php_swoole_server_task_pack_def z ZVAL_IS_STRING_def Z_STRVAL_def)
    then show ?thesis using ok by (simp add: SW_ERR_def)
  qed
next
  case nstr: False
  show ?thesis
  proof (cases "serialize zdata")
    case None
    then have "task_id = - 1"
      using p nstr by (simp add: php_swoole_server_task_pack_def)
    then show ?thesis using ok by simp
  next
    case (Some s)
    obtain b t e where sp: "Server_task_pack env s = (b, t, e)"
      by (cases "Server_task_pack env s") auto
    show ?thesis
    proof (cases b)
      case True
      have sp': "Server_task_pack env s = (True, t, e)" using sp True by simp
      have tk: "tk = t\<lparr>info_ext_flags := info_ext_flags t \<union> {SW_TASK_SERIALIZE}\<rparr>" and "env' = e"
        using p sp True nstr Some by (simp_all add: php_swoole_server_task_pack_def)
      then show ?thesis
        using Server_task_roundtrip [OF sp'] nstr Some ser [OF nstr Some]
        by (simp add: php_swoole_server_task_unpack_def Server_task_unpack_flags)
    next
      case False
      have "task_id = SW_ERR"
        using p sp False nstr Some by (auto simp: php_swoole_server_task_pack_def)
      then show ?thesis using ok by (simp add: SW_ERR_def)
    qed
  qed
qed

text \<open>
  Claim C4. Take a payload that is a string, or one that \<open>serialize\<close> turns into
  bytes which \<open>unserialize\<close> reads back, let the next task id be 0 or more, and let
  the bytes fit the inline bound or a temporary file be available. Then
  \<open>php_swoole_server_task_pack\<close> succeeds whatever the caller's buffer held: it returns
  the next task id and an envelope with that id, which holds the bytes themselves when
  they fit the bound and otherwise the path of a temporary file that holds them.
  \<open>php_swoole_server_task_unpack\<close> on that envelope gives the payload back. The
  envelope carries \<open>SW_TASK_SERIALIZE\<close> exactly when the payload is not a string and
  \<open>SW_TASK_TMPFILE\<close> exactly when the bytes exceed the bound.
\<close>

theorem task_pack_unpack_roundtrip:
  assumes id: "0 \<le> current_task_id env"
    and bytes: "if ZVAL_IS_STRING zdata then bytes = Z_STRVAL zdata
                else serialize zdata = Some bytes \<and> unserialize bytes = Some zdata"
    and room: "length bytes \<le> inline_bound env \<or> tmpfile env \<noteq> None"
  shows "\<exists>tk env'.
           php_swoole_server_task_pack serialize env zdata tk0 = (current_task_id env, tk, env')
         \<and> info_fd tk = current_task_id env
         \<and> php_swoole_server_task_unpack unserialize env' tk = Some zdata
         \<and> (SW_TASK_SERIALIZE \<in> info_ext_flags tk \<longleftrightarrow> \<not> ZVAL_IS_STRING zdata)
         \<and> (SW_TASK_TMPFILE \<in> info_ext_flags tk \<longleftrightarrow> inline_bound env < length bytes)
         \<and> (if length bytes \<le> inline_bound env
             then data tk = bytes \<and> info_len tk = length bytes \<and> files env' = files env
             else tmpfile env = Some (data tk) \<and> info_len tk = length (data tk)
                \<and> files env' = (files env)(data tk \<mapsto> bytes))"
proof -
  define t where "t = fst (snd (Server_task_pack env bytes))"
  define e where "e = snd (snd (Server_task_pack env bytes))"
  have sp: "Server_task_pack env bytes = (True, t, e)"
    unfolding t_def e_def using room by (auto simp: Server_task_pack_def Let_def)
  have fd: "info_fd t = current_task_id env"
    unfolding t_def by (auto simp: Server_task_pack_def Let_def split: option.splits)
  have lay: "if length bytes \<le> inline_bound env
              then data t = bytes \<and> info_len t = length bytes \<and> files e = files env
              else tmpfile env = Some (data t) \<and> info_len t = length (data t)
                 \<and> files e = (files env)(data t \<mapsto> bytes)"
    unfolding t_def e_def using room by (auto simp: Server_task_pack_def Let_def)
  let ?tk = "if ZVAL_IS_STRING zdata then t
             else t\<lparr>info_ext_flags := info_ext_flags t \<union> {SW_TASK_SERIALIZE}\<rparr>"
  have p: "php_swoole_server_task_pack serialize env zdata tk0 = (current_task_id env, ?tk, e)"
    using bytes sp fd by (auto simp: php_swoole_server_task_pack_def)
  have ser: "\<And>s. \<not> ZVAL_IS_STRING zdata \<Longrightarrow> serialize zdata = Some s
      \<Longrightarrow> unserialize s = Some zdata"
    using bytes by (auto split: if_splits)
  have b: "(if ZVAL_IS_STRING zdata then Z_STRVAL zdata else the (serialize zdata)) = bytes"
    using bytes by (auto split: if_splits)
  have "php_swoole_server_task_unpack unserialize e ?tk = Some zdata
       \<and> (SW_TASK_SERIALIZE \<in> info_ext_flags ?tk \<longleftrightarrow> \<not> ZVAL_IS_STRING zdata)
       \<and> (SW_TASK_TMPFILE \<in> info_ext_flags ?tk \<longleftrightarrow>
            inline_bound env < length (if ZVAL_IS_STRING zdata then Z_STRVAL zdata
                                        else the (serialize zdata)))"
    by (rule task_pack_unpack_if_packed [where unserialize = unserialize, OF p id]) (rule ser)
  then have r: "php_swoole_server_task_unpack unserialize e ?tk = Some zdata
       \<and> (SW_TASK_SERIALIZE \<in> info_ext_flags ?tk \<longleftrightarrow> \<not> ZVAL_IS_STRING zdata)
       \<and> (SW_TASK_TMPFILE \<in> info_ext_flags ?tk \<longleftrightarrow> inline_bound env < length bytes)"
    unfolding b .
  have "info_fd ?tk = current_task_id env" using fd by simp
  moreover have "if length bytes \<le> inline_bound env
             then data ?tk = bytes \<and> info_len ?tk = length bytes \<and> files e = files env
             else tmpfile env = Some (data ?tk) \<and> info_len ?tk = length (data ?tk)
                \<and> files e = (files env)(data ?tk \<mapsto> bytes)"
    using lay by (simp split: if_splits)
  ultimately show ?thesis using p r by blast
qed

theorem task_pack_unpack_roundtrip_witness:
  "php_swoole_server_task_pack toy_serialize env0 (ZString ''hello'') buf_stale
     = (42, \<lparr>info_fd = 42, info_len = 5, info_ext_flags = {}, data = ''hello''\<rparr>,
        env0\<lparr>current_task_id := 43\<rparr>)
   \<and> php_swoole_server_task_unpack toy_unserialize (env0\<lparr>current_task_id := 43\<rparr>)
        \<lparr>info_fd = 42, info_len = 5, info_ext_flags = {}, data = ''hello''\<rparr>
     = Some (ZString ''hello'')
   \<and> php_swoole_server_task_pack toy_serialize env0 (ZArray [(0, ZLong 7)]) buf_stale
     = (42, \<lparr>info_fd = 42, info_len = 18, info_ext_flags = {SW_TASK_TMPFILE, SW_TASK_SERIALIZE},
              data = ''/tmp/swoole.task.1''\<rparr>,
        env0\<lparr>current_task_id := 43, files := [''/tmp/swoole.task.1'' \<mapsto> ''a:1:{i:0;i:7;}'']\<rparr>)
   \<and> php_swoole_server_task_unpack toy_unserialize
        (env0\<lparr>current_task_id := 43, files := [''/tmp/swoole.task.1'' \<mapsto> ''a:1:{i:0;i:7;}'']\<rparr>)
        \<lparr>info_fd = 42, info_len = 18, info_ext_flags = {SW_TASK_TMPFILE, SW_TASK_SERIALIZE},
          data = ''/tmp/swoole.task.1''\<rparr>
     = Some (ZArray [(0, ZLong 7)])"
proof -
  have id: "0 \<le> current_task_id env0" by (simp add: env0_def)
  have e1: "php_swoole_server_task_pack toy_serialize env0 (ZString ''hello'') buf_stale
     = (42, \<lparr>info_fd = 42, info_len = 5, info_ext_flags = {}, data = ''hello''\<rparr>,
        env0\<lparr>current_task_id := 43\<rparr>)"
    by (simp add: php_swoole_server_task_pack_def Server_task_pack_def env0_def
        ZVAL_IS_STRING_def Z_STRVAL_def Let_def)
  have e2: "php_swoole_server_task_pack toy_serialize env0 (ZArray [(0, ZLong 7)]) buf_stale
     = (42, \<lparr>info_fd = 42, info_len = 18, info_ext_flags = {SW_TASK_TMPFILE, SW_TASK_SERIALIZE},
              data = ''/tmp/swoole.task.1''\<rparr>,
        env0\<lparr>current_task_id := 43, files := [''/tmp/swoole.task.1'' \<mapsto> ''a:1:{i:0;i:7;}'']\<rparr>)"
    by (simp add: php_swoole_server_task_pack_def Server_task_pack_def env0_def
        ZVAL_IS_STRING_def toy_serialize_def Let_def insert_commute)
  have b1: "if ZVAL_IS_STRING (ZString ''hello'') then ''hello'' = Z_STRVAL (ZString ''hello'')
            else toy_serialize (ZString ''hello'') = Some ''hello''
               \<and> toy_unserialize ''hello'' = Some (ZString ''hello'')"
    by (simp add: ZVAL_IS_STRING_def Z_STRVAL_def)
  have b2: "if ZVAL_IS_STRING (ZArray [(0, ZLong 7)])
            then ''a:1:{i:0;i:7;}'' = Z_STRVAL (ZArray [(0, ZLong 7)])
            else toy_serialize (ZArray [(0, ZLong 7)]) = Some ''a:1:{i:0;i:7;}''
               \<and> toy_unserialize ''a:1:{i:0;i:7;}'' = Some (ZArray [(0, ZLong 7)])"
    by (simp add: ZVAL_IS_STRING_def toy_serialize_def toy_unserialize_def)
  have r1: "length ''hello'' \<le> inline_bound env0 \<or> tmpfile env0 \<noteq> None"
    and r2: "length ''a:1:{i:0;i:7;}'' \<le> inline_bound env0 \<or> tmpfile env0 \<noteq> None"
    by (simp_all add: env0_def)
  from task_pack_unpack_roundtrip [where env = env0 and zdata = "ZString ''hello''"
      and bytes = "''hello''" and serialize = toy_serialize and unserialize = toy_unserialize
      and ?tk0.0 = buf_stale, OF id b1 r1]
  obtain tk env' where
    "php_swoole_server_task_pack toy_serialize env0 (ZString ''hello'') buf_stale
       = (current_task_id env0, tk, env')"
    and u: "php_swoole_server_task_unpack toy_unserialize env' tk = Some (ZString ''hello'')"
    by blast
  then have u1: "php_swoole_server_task_unpack toy_unserialize (env0\<lparr>current_task_id := 43\<rparr>)
        \<lparr>info_fd = 42, info_len = 5, info_ext_flags = {}, data = ''hello''\<rparr>
     = Some (ZString ''hello'')"
    unfolding e1 by simp
  from task_pack_unpack_roundtrip [where env = env0 and zdata = "ZArray [(0, ZLong 7)]"
      and bytes = "''a:1:{i:0;i:7;}''" and serialize = toy_serialize
      and unserialize = toy_unserialize and ?tk0.0 = buf_stale, OF id b2 r2]
  obtain tk2 env2 where
    "php_swoole_server_task_pack toy_serialize env0 (ZArray [(0, ZLong 7)]) buf_stale
       = (current_task_id env0, tk2, env2)"
    and u': "php_swoole_server_task_unpack toy_unserialize env2 tk2 = Some (ZArray [(0, ZLong 7)])"
    by blast
  then have u2: "php_swoole_server_task_unpack toy_unserialize
        (env0\<lparr>current_task_id := 43, files := [''/tmp/swoole.task.1'' \<mapsto> ''a:1:{i:0;i:7;}'']\<rparr>)
        \<lparr>info_fd = 42, info_len = 18, info_ext_flags = {SW_TASK_TMPFILE, SW_TASK_SERIALIZE},
          data = ''/tmp/swoole.task.1''\<rparr>
     = Some (ZArray [(0, ZLong 7)])"
    unfolding e2 by simp
  show ?thesis
    by (intro conjI e1 u1 e2 u2)
qed

subsection \<open>\<open>Server->taskwait\<close> in a coroutine\<close>

lemma onFinish_untracked:
  assumes "SW_TASK_COROUTINE \<in> info_ext_flags req"
    and "task_coroutine_map st (get_task_id req) = None"
  shows "completion_dropped call_ok st req unpacked"
  using assms
  by (simp add: completion_dropped_def php_swoole_server_onFinish_def Let_def split: option.splits)

lemma taskwait_co_resume_erases:
  "task_coroutine_map (snd (taskwait_co_resume st cid task_id retval)) task_id = None"
  by (simp add: taskwait_co_resume_def Let_def)

lemma taskwait_co_begin_Suspended:
  assumes "taskwait_co_begin serv_task serv st cid (packed_id, buf) dst = Suspended s"
  shows "s = st\<lparr>task_cos := (task_cos st)(cid \<mapsto> \<lparr>co = cid, co_list = None, co_count = 1, co_result = ZNull\<rparr>),
               task_coroutine_map := (task_coroutine_map st)(get_task_id buf \<mapsto> cid)\<rparr>"
  using assms
  by (simp add: taskwait_co_begin_def Let_def split: if_splits)

text \<open>
  Claim C1. Let a coroutine be suspended in \<open>taskwait\<close> on a task id, so that the id is
  tracked. Then either a completion arrives first: \<open>php_swoole_server_onFinish\<close>
  stores the result and resumes that coroutine, \<open>taskwait\<close> returns the result and
  erases the entry; or the timeout comes first: \<open>taskwait\<close> returns false and erases
  the entry. In both cases every completion for that id that arrives afterwards is
  dropped: no coroutine is resumed and the state is left as it was, but for the warning
  "task has expired" (a completion that cannot be unpacked is refused before that, with
  \<open>SW_ERR\<close>).
\<close>

theorem taskwait_result_xor_timeout:
  assumes b: "taskwait_co_begin serv_task serv st cid (packed_id, buf) dst = Suspended s"
    and f: "SW_TASK_COROUTINE \<in> info_ext_flags req"
    and i: "get_task_id req = get_task_id buf"
  shows "task_coroutine_map s (get_task_id buf) = Some cid
    \<and> (\<exists>s_d. php_swoole_server_onFinish call_ok s req (Some z) = Inr (SW_OK, s_d, Some cid)
          \<and> fst (taskwait_co_resume s_d cid (get_task_id buf) True) = z
          \<and> completion_dropped call_ok (snd (taskwait_co_resume s_d cid (get_task_id buf) True)) req late)
    \<and> fst (taskwait_co_resume s cid (get_task_id buf) False) = ZFalse
    \<and> completion_dropped call_ok (snd (taskwait_co_resume s cid (get_task_id buf) False)) req late"
proof -
  let ?tc = "\<lparr>co = cid, co_list = None, co_count = 1, co_result = ZNull\<rparr>"
  let ?tid = "get_task_id buf"
  note s = taskwait_co_begin_Suspended [OF b]
  have m: "task_coroutine_map s ?tid = Some cid" and c: "task_cos s cid = Some ?tc"
    by (simp_all add: s)
  let ?s_d = "s\<lparr>task_cos := (task_cos s)(cid \<mapsto> ?tc\<lparr>co_result := z\<rparr>)\<rparr>"
  have d: "php_swoole_server_onFinish call_ok s req (Some z) = Inr (SW_OK, ?s_d, Some cid)"
    using f m c by (simp add: php_swoole_server_onFinish_def Let_def i)
  have r: "fst (taskwait_co_resume ?s_d cid ?tid True) = z"
    by (simp add: taskwait_co_resume_def Let_def)
  have l1: "completion_dropped call_ok (snd (taskwait_co_resume ?s_d cid ?tid True)) req late"
    by (rule onFinish_untracked [OF f]) (simp add: i taskwait_co_resume_erases)
  have t: "fst (taskwait_co_resume s cid ?tid False) = ZFalse"
    by (simp add: taskwait_co_resume_def Let_def)
  have l2: "completion_dropped call_ok (snd (taskwait_co_resume s cid ?tid False)) req late"
    by (rule onFinish_untracked [OF f]) (simp add: i taskwait_co_resume_erases)
  from m d r l1 t l2 show ?thesis by blast
qed

lemma map_upd_erase_empty [simp]: "(Map.empty(k \<mapsto> v))(k := None) = Map.empty"
  by (rule ext) simp

theorem taskwait_result_xor_timeout_witness:
  "taskwait_co_begin task_sent srv4 prop0 1 (42, buf0) (- 1) = Suspended co_wait
   \<and> task_coroutine_map co_wait 42 = Some 1
   \<and> taskwait_co_resume co_wait 1 42 False = (ZFalse, prop0)
   \<and> php_swoole_server_onFinish all_ok prop0 (completion 42) (Some (ZString ''late''))
       = Inr (SW_OK, prop0\<lparr>log := [Task_expired 42]\<rparr>, None)
   \<and> (\<exists>s_d. php_swoole_server_onFinish all_ok co_wait (completion 42) (Some (ZString ''ok''))
                = Inr (SW_OK, s_d, Some 1)
            \<and> taskwait_co_resume s_d 1 42 True = (ZString ''ok'', prop0))"
proof -
  have b: "taskwait_co_begin task_sent srv4 prop0 1 (42, buf0) (- 1) = Suspended co_wait"
    by (simp add: taskwait_co_begin_def php_swoole_server_task_check_param_def srv4_def buf0_def
        task_sent_def get_task_id_def co_wait_def prop0_def SW_OK_def SW_ERR_def Let_def)
  have f: "SW_TASK_COROUTINE \<in> info_ext_flags (completion 42)"
    by (simp add: completion_def)
  have i: "get_task_id (completion 42) = get_task_id buf0"
    by (simp add: completion_def buf0_def get_task_id_def)
  have g: "get_task_id buf0 = 42" by (simp add: buf0_def get_task_id_def)
  have t: "taskwait_co_resume co_wait 1 42 False = (ZFalse, prop0)"
    by (simp add: taskwait_co_resume_def co_wait_def prop0_def Let_def)
  note w = taskwait_result_xor_timeout [OF b f i, of all_ok "ZString ''ok''" "Some (ZString ''late'')",
      unfolded g]
  from w have m: "task_coroutine_map co_wait 42 = Some 1" by (rule conjunct1)
  from w have cd: "completion_dropped all_ok (snd (taskwait_co_resume co_wait 1 42 False))
      (completion 42) (Some (ZString ''late''))"
    by (elim conjE)
  have l: "php_swoole_server_onFinish all_ok prop0 (completion 42) (Some (ZString ''late''))
       = Inr (SW_OK, prop0\<lparr>log := [Task_expired 42]\<rparr>, None)"
    using cd unfolding t snd_conv completion_dropped_def
    by (simp add: i g prop0_def)
  from w obtain s_d where
    d: "php_swoole_server_onFinish all_ok co_wait (completion 42) (Some (ZString ''ok''))
          = Inr (SW_OK, s_d, Some 1)"
    by (elim conjE exE)
  have "s_d = co_wait\<lparr>task_cos := [1 \<mapsto> \<lparr>co = 1, co_list = None, co_count = 1,
      co_result = ZString ''ok''\<rparr>]\<rparr>"
    using d by (simp add: php_swoole_server_onFinish_def completion_def get_task_id_def co_wait_def
        prop0_def Let_def)
  then have r: "taskwait_co_resume s_d 1 42 True = (ZString ''ok'', prop0)"
    by (simp add: taskwait_co_resume_def co_wait_def prop0_def Let_def)
  from b m t l d r show ?thesis by blast
qed

subsection \<open>\<open>Server->taskCo\<close>\<close>

text \<open>
  When every task of a join is dispatched, the join does what is expected of it.
  \<open>taskCo_begin_all_sent\<close>: the coroutine is suspended with \<open>list\<close> holding the task
  ids in input order, \<open>count\<close> their number and an empty result array, and every id is
  tracked. \<open>join_completion\<close>: the result of the task at index \<open>k\<close> is written at
  index \<open>k\<close> and its entry erased, and the coroutine is resumed exactly when the array
  then has \<open>count\<close> entries, which by \<open>join_wf_full\<close> is when every index is present.
  \<open>join_timeout\<close>: after the timeout every missing index holds false, every index that
  was present is kept, and exactly the ids of the missing indices are erased.
\<close>

lemma find_task_index_first:
  assumes "i \<le> k" and "k < i + n" and "lst ! k = t" and "\<And>j. i \<le> j \<Longrightarrow> j < k \<Longrightarrow> lst ! j \<noteq> t"
  shows "find_task_index lst i n t = Some k"
  using assms
proof (induction n arbitrary: i)
  case 0
  then show ?case by simp
next
  case (Suc n)
  show ?case
  proof (cases "i = k")
    case True
    then show ?thesis using Suc.prems by simp
  next
    case False
    then have "i < k" using Suc.prems by simp
    then have ne: "lst ! i \<noteq> t" using Suc.prems(4) [of i] by simp
    have "find_task_index lst (Suc i) n t = Some k"
      using Suc.prems \<open>i < k\<close> by (intro Suc.IH) simp_all
    then show ?thesis using ne by simp
  qed
qed

lemma find_task_index_distinct:
  assumes "distinct lst" and "k < length lst"
  shows "find_task_index lst 0 (length lst) (lst ! k) = Some k"
proof (rule find_task_index_first)
  fix j assume "0 \<le> j" "j < k"
  then show "lst ! j \<noteq> lst ! k"
    using assms by (simp add: nth_eq_iff_index_eq)
qed (use assms in simp_all)

lemma find_task_index_None:
  "(\<And>j. i \<le> j \<Longrightarrow> j < i + n \<Longrightarrow> lst ! j \<noteq> t) \<Longrightarrow> find_task_index lst i n t = None"
proof (induction n arbitrary: i)
  case 0
  then show ?case by simp
next
  case (Suc n)
  have "lst ! i \<noteq> t" using Suc.prems [of i] by simp
  moreover have "find_task_index lst (Suc i) n t = None"
    using Suc.prems by (intro Suc.IH) simp
  ultimately show ?case by simp
qed

lemma taskCo_loop_all_sent:
  assumes "\<forall>t \<in> set ids. 0 \<le> t" and "i + length ids \<le> length lst"
  shows "taskCo_loop cid (map (\<lambda>t. (t, True)) ids) i n lst rv m =
           (n, take i lst @ ids @ drop (i + length ids) lst, rv,
            (\<lambda>t. if t \<in> set ids then Some cid else m t))"
  using assms
proof (induction ids arbitrary: i lst m)
  case Nil
  then show ?case by simp
next
  case (Cons t ids)
  have i: "i < length lst" using Cons.prems by simp
  have 1: "take (Suc i) (lst[i := t]) = take i lst @ [t]"
    using i by (simp add: take_Suc_conv_app_nth)
  have 2: "drop (Suc i + length ids) (lst[i := t]) = drop (Suc i + length ids) lst"
    by simp
  have 3: "(\<lambda>x. if x \<in> set ids then Some cid else (m(t \<mapsto> cid)) x)
         = (\<lambda>x. if x \<in> set (t # ids) then Some cid else m x)"
    by (rule ext) simp
  have "taskCo_loop cid (map (\<lambda>t. (t, True)) ids) (Suc i) n (lst[i := t]) rv (m(t \<mapsto> cid)) =
      (n, take (Suc i) (lst[i := t]) @ ids @ drop (Suc i + length ids) (lst[i := t]), rv,
       (\<lambda>x. if x \<in> set ids then Some cid else (m(t \<mapsto> cid)) x))"
    using Cons.prems by (intro Cons.IH) simp_all
  then show ?case using Cons.prems by (simp add: 1 2 3)
qed

lemma taskCo_begin_all_sent:
  assumes "is_started serv" and "is_worker serv"
    and "php_swoole_server_task_check_param serv (- 1) = SW_OK"
    and "length ids < max_tasks" and "ids \<noteq> []" and "\<forall>t \<in> set ids. 0 \<le> t"
  shows "taskCo_begin max_tasks serv st cid (map (\<lambda>t. (t, True)) ids) =
           Suspended
             (st\<lparr>task_coroutine_map :=
                    (\<lambda>t. if t \<in> set ids then Some cid else task_coroutine_map st t),
                 task_cos := (task_cos st)
                    (cid \<mapsto> \<lparr>co = cid, co_list = Some ids, co_count = length ids,
                             co_result = ZArray []\<rparr>)\<rparr>)"
proof -
  have "taskCo_loop cid (map (\<lambda>t. (t, True)) ids) 0 (length ids) (replicate (length ids) 0) (ZArray [])
          (task_coroutine_map st) =
        (length ids, ids, ZArray [],
         (\<lambda>t. if t \<in> set ids then Some cid else task_coroutine_map st t))"
    using assms(6) by (subst taskCo_loop_all_sent) simp_all
  then show ?thesis
    using assms by (simp add: taskCo_begin_def SW_OK_def)
qed

lemma join_wf_update:
  "join_wf ids a \<Longrightarrow> k < length ids \<Longrightarrow> join_wf ids (AList.update k z a)"
  by (auto simp: join_wf_def distinct_update dom_update)

lemma join_wf_full:
  assumes "join_wf ids a"
  shows "length a = length ids \<longleftrightarrow> (\<forall>j < length ids. map_of a j \<noteq> None)"
proof -
  have d: "distinct (map fst a)" and sub: "fst ` set a \<subseteq> {..< length ids}"
    using assms by (simp_all add: join_wf_def)
  have c: "card (fst ` set a) = length a"
    using distinct_card [OF d] by simp
  have dom: "\<And>j. map_of a j \<noteq> None \<longleftrightarrow> j \<in> fst ` set a"
    by (simp add: map_of_eq_None_iff)
  show ?thesis
  proof
    assume "length a = length ids"
    then have "card (fst ` set a) = card {..< length ids}" using c by simp
    then have "fst ` set a = {..< length ids}"
      using sub by (intro card_subset_eq) simp_all
    then show "\<forall>j < length ids. map_of a j \<noteq> None"
      using dom by (metis lessThan_iff)
  next
    assume "\<forall>j < length ids. map_of a j \<noteq> None"
    then have "{..< length ids} \<subseteq> fst ` set a"
      using dom by (metis lessThan_iff subsetI)
    then have "fst ` set a = {..< length ids}" using sub by blast
    then show "length a = length ids" using c by simp
  qed
qed

lemma join_completion:
  assumes tc: "task_cos s cid = Some tc" "co_list tc = Some ids" "co_count tc = length ids"
      "co_result tc = ZArray a"
    and d: "distinct ids" and k: "k < length ids"
    and m: "task_coroutine_map s (ids ! k) = Some cid"
    and f: "SW_TASK_COROUTINE \<in> info_ext_flags req" and i: "get_task_id req = ids ! k"
  shows "php_swoole_server_onFinish call_ok s req (Some z) =
           Inr (SW_OK,
                s\<lparr>task_cos := (task_cos s)(cid \<mapsto> tc\<lparr>co_result := ZArray (AList.update k z a)\<rparr>),
                  task_coroutine_map := (task_coroutine_map s)(ids ! k := None)\<rparr>,
                if length (AList.update k z a) = length ids then Some (co tc) else None)"
  using tc m f find_task_index_distinct [OF d k]
  by (simp add: php_swoole_server_onFinish_def i Let_def add_index_zval_def
      php_swoole_array_length_def)

lemma taskCo_timeout_loop_marks:
  "\<exists>a'. taskCo_timeout_loop True lst i k (ZArray a) m =
           (ZArray a',
            (\<lambda>t. if \<exists>j. i \<le> j \<and> j < i + k \<and> map_of a j = None \<and> lst ! j = t then None else m t))
        \<and> map_of a' = (\<lambda>j. if i \<le> j \<and> j < i + k \<and> map_of a j = None then Some ZFalse
                           else map_of a j)"
proof (induction k arbitrary: i a m)
  case 0
  show ?case by (auto intro!: ext)
next
  case (Suc k)
  show ?case
  proof (cases "map_of a i = None")
    case False
    from Suc.IH [of "Suc i" a m] obtain a' where
      l: "taskCo_timeout_loop True lst (Suc i) k (ZArray a) m =
           (ZArray a',
            (\<lambda>t. if \<exists>j. Suc i \<le> j \<and> j < Suc i + k \<and> map_of a j = None \<and> lst ! j = t
                  then None else m t))"
      and v: "map_of a' = (\<lambda>j. if Suc i \<le> j \<and> j < Suc i + k \<and> map_of a j = None
                                then Some ZFalse else map_of a j)"
      by blast
    have e: "(i \<le> j \<and> j < i + Suc k \<and> map_of a j = None \<and> P)
               = (Suc i \<le> j \<and> j < Suc i + k \<and> map_of a j = None \<and> P)" for j P
      using False by (cases "j = i") auto
    have "taskCo_timeout_loop True lst i (Suc k) (ZArray a) m =
            taskCo_timeout_loop True lst (Suc i) k (ZArray a) m"
      using False by (simp add: zend_hash_index_exists_def)
    moreover have "(\<lambda>t. if \<exists>j. Suc i \<le> j \<and> j < Suc i + k \<and> map_of a j = None \<and> lst ! j = t
                      then None else m t)
        = (\<lambda>t. if \<exists>j. i \<le> j \<and> j < i + Suc k \<and> map_of a j = None \<and> lst ! j = t then None else m t)"
      by (rule ext) (simp only: e)
    moreover have "map_of a' = (\<lambda>j. if i \<le> j \<and> j < i + Suc k \<and> map_of a j = None
                                then Some ZFalse else map_of a j)"
      unfolding v by (rule ext) (use e [of _ True] in simp)
    ultimately show ?thesis using l by simp
  next
    case True
    let ?a1 = "AList.update i ZFalse a"
    let ?m1 = "m(lst ! i := None)"
    from Suc.IH [of "Suc i" ?a1 ?m1] obtain a' where
      l: "taskCo_timeout_loop True lst (Suc i) k (ZArray ?a1) ?m1 =
           (ZArray a',
            (\<lambda>t. if \<exists>j. Suc i \<le> j \<and> j < Suc i + k \<and> map_of ?a1 j = None \<and> lst ! j = t
                  then None else ?m1 t))"
      and v: "map_of a' = (\<lambda>j. if Suc i \<le> j \<and> j < Suc i + k \<and> map_of ?a1 j = None
                                then Some ZFalse else map_of ?a1 j)"
      by blast
    have u: "\<And>j. Suc i \<le> j \<Longrightarrow> map_of ?a1 j = map_of a j"
      by (simp add: update_conv')
    have "taskCo_timeout_loop True lst i (Suc k) (ZArray a) m =
            taskCo_timeout_loop True lst (Suc i) k (ZArray ?a1) ?m1"
      using True by (simp add: zend_hash_index_exists_def add_index_bool_def add_index_zval_def)
    moreover have "(\<lambda>t. if \<exists>j. Suc i \<le> j \<and> j < Suc i + k \<and> map_of ?a1 j = None \<and> lst ! j = t
                      then None else ?m1 t)
        = (\<lambda>t. if \<exists>j. i \<le> j \<and> j < i + Suc k \<and> map_of a j = None \<and> lst ! j = t then None else m t)"
    proof (rule ext)
      fix t
      have "(\<exists>j. i \<le> j \<and> j < i + Suc k \<and> map_of a j = None \<and> lst ! j = t)
          \<longleftrightarrow> lst ! i = t \<or> (\<exists>j. Suc i \<le> j \<and> j < Suc i + k \<and> map_of ?a1 j = None \<and> lst ! j = t)"
        (is "?L \<longleftrightarrow> ?R")
      proof
        assume ?L
        then obtain j where j: "i \<le> j" "j < i + Suc k" "map_of a j = None" "lst ! j = t" by blast
        show ?R
        proof (cases "j = i")
          case True then show ?thesis using j by simp
        next
          case False
          then have "Suc i \<le> j" using j by simp
          then show ?thesis using j u [of j] by auto
        qed
      next
        assume ?R
        then show ?L
        proof
          assume "lst ! i = t"
          then show ?L using True by (intro exI [of _ i]) simp
        next
          assume "\<exists>j. Suc i \<le> j \<and> j < Suc i + k \<and> map_of ?a1 j = None \<and> lst ! j = t"
          then obtain j where j: "Suc i \<le> j" "j < Suc i + k" "map_of ?a1 j = None" "lst ! j = t"
            by blast
          then show ?L using u [of j] by (intro exI [of _ j]) simp
        qed
      qed
      then show "(if \<exists>j. Suc i \<le> j \<and> j < Suc i + k \<and> map_of ?a1 j = None \<and> lst ! j = t
                  then None else ?m1 t)
        = (if \<exists>j. i \<le> j \<and> j < i + Suc k \<and> map_of a j = None \<and> lst ! j = t then None else m t)"
        by auto
    qed
    moreover have "map_of a' = (\<lambda>j. if i \<le> j \<and> j < i + Suc k \<and> map_of a j = None
                                then Some ZFalse else map_of a j)"
      unfolding v
    proof (rule ext)
      fix j
      show "(if Suc i \<le> j \<and> j < Suc i + k \<and> map_of ?a1 j = None then Some ZFalse else map_of ?a1 j)
          = (if i \<le> j \<and> j < i + Suc k \<and> map_of a j = None then Some ZFalse else map_of a j)"
      proof (cases "j = i")
        case True
        then show ?thesis using \<open>map_of a i = None\<close> by (simp add: update_conv')
      next
        case False
        then show ?thesis by (auto simp: update_conv')
      qed
    qed
    ultimately show ?thesis using l by simp
  qed
qed

lemma join_timeout:
  assumes tc: "task_cos s cid = Some tc" "co_list tc = Some ids" "co_count tc = length ids"
      "co_result tc = ZArray a"
  shows "\<exists>a'. taskCo_resume s cid False True =
           Inr (ZArray a',
                s\<lparr>task_coroutine_map :=
                     (\<lambda>t. if \<exists>j. j < length ids \<and> map_of a j = None \<and> ids ! j = t then None
                          else task_coroutine_map s t),
                   task_cos := (task_cos s)(cid := None)\<rparr>)
        \<and> map_of a' = (\<lambda>j. if j < length ids \<and> map_of a j = None then Some ZFalse else map_of a j)"
proof -
  from taskCo_timeout_loop_marks [of ids 0 "length ids" a "task_coroutine_map s"]
  obtain a' where
    l: "taskCo_timeout_loop True ids 0 (length ids) (ZArray a) (task_coroutine_map s) =
          (ZArray a',
           (\<lambda>t. if \<exists>j. j < length ids \<and> map_of a j = None \<and> ids ! j = t then None
                 else task_coroutine_map s t))"
    and v: "map_of a' = (\<lambda>j. if j < length ids \<and> map_of a j = None then Some ZFalse else map_of a j)"
    by auto
  have "taskCo_resume s cid False True =
           Inr (ZArray a',
                s\<lparr>task_coroutine_map :=
                     (\<lambda>t. if \<exists>j. j < length ids \<and> map_of a j = None \<and> ids ! j = t then None
                          else task_coroutine_map s t),
                   task_cos := (task_cos s)(cid := None)\<rparr>)"
    using tc by (simp add: taskCo_resume_def Let_def l)
  with v show ?thesis by blast
qed

text \<open>A failed dispatch breaks this; a join of three tasks shows it.\<close>

lemma join3_begin: "taskCo_begin 1024 srv4 prop0 1 [(10, False), (11, True), (12, True)] = Suspended join3"
  by (simp add: taskCo_begin_def php_swoole_server_task_check_param_def srv4_def prop0_def join3_def
      SW_OK_def SW_ERR_def add_index_bool_def add_index_zval_def numeral_2_eq_2)

lemma join3_completion_12: "php_swoole_server_onFinish all_ok join3 (completion 12) (Some (ZString ''r12''))
      = Inr (SW_OK, join3\<lparr>log := [Task_invalid 12]\<rparr>, None)"
  by (simp add: php_swoole_server_onFinish_def completion_def get_task_id_def join3_def prop0_def
      numeral_2_eq_2)

lemma join3_completion_11: "php_swoole_server_onFinish all_ok join3 (completion 11) (Some (ZString ''r11''))
      = Inr (SW_OK, join3_early, Some 1)"
  by (simp add: php_swoole_server_onFinish_def completion_def get_task_id_def join3_def join3_early_def prop0_def
      numeral_2_eq_2 add_index_zval_def php_swoole_array_length_def Let_def fun_upd_twist)

lemma join3_early_resume: "taskCo_resume join3_early 1 True True
      = Inr (ZArray [(0, ZFalse), (1, ZString ''r11'')], join3_left)"
  by (simp add: taskCo_resume_def join3_early_def join3_left_def prop0_def Let_def)

lemma join3_left_dangling: "php_swoole_server_onFinish all_ok join3_left (completion 12) (Some (ZString ''r12''))
      = Inl (Dangling_TaskCo 1)"
  by (simp add: php_swoole_server_onFinish_def completion_def get_task_id_def join3_left_def prop0_def)

lemma join3_timeout: "taskCo_resume join3 1 False True = Inr (ZArray [(0, ZFalse), (1, ZFalse)], join3_left)"
  by (simp add: taskCo_resume_def join3_def join3_left_def prop0_def Let_def numeral_2_eq_2
      zend_hash_index_exists_def add_index_bool_def add_index_zval_def fun_upd_twist)

text \<open>
  Claim C3 (not met by the code). A join over three tasks whose first dispatch fails:
  \<open>n_task\<close> drops to 2, and 2 then bounds both the search in \<open>list\<close> and the loop
  after the timeout, although the two tasks that were dispatched sit at the indices 1
  and 2. The result of task 12 is refused as invalid and written nowhere. The result of
  task 11 fills the array to length 2, so the coroutine is resumed while task 12 is
  outstanding; \<open>taskCo\<close> returns without an entry for index 2 and leaves task 12 in the
  map, pointing to a \<open>TaskCo\<close> that is gone, which the next completion reads. After a
  timeout, index 2 gets no failure marker and task 12 is not erased.
\<close>

theorem taskCo_failed_dispatch_breaks_join:
  "taskCo_begin 1024 srv4 prop0 1 [(10, False), (11, True), (12, True)] = Suspended join3
   \<and> php_swoole_server_onFinish all_ok join3 (completion 12) (Some (ZString ''r12''))
       = Inr (SW_OK, join3\<lparr>log := [Task_invalid 12]\<rparr>, None)
   \<and> php_swoole_server_onFinish all_ok join3 (completion 11) (Some (ZString ''r11''))
       = Inr (SW_OK, join3_early, Some 1)
   \<and> task_coroutine_map join3_early 12 = Some 1
   \<and> taskCo_resume join3_early 1 True True
       = Inr (ZArray [(0, ZFalse), (1, ZString ''r11'')], join3_left)
   \<and> php_swoole_server_onFinish all_ok join3_left (completion 12) (Some (ZString ''r12''))
       = Inl (Dangling_TaskCo 1)
   \<and> taskCo_resume join3 1 False True = Inr (ZArray [(0, ZFalse), (1, ZFalse)], join3_left)
   \<and> task_coroutine_map join3_left 12 = Some 1"
proof -
  have m: "task_coroutine_map join3_early 12 = Some 1" "task_coroutine_map join3_left 12 = Some 1"
    by (simp_all add: join3_early_def join3_left_def)
  show ?thesis
    by (intro conjI join3_begin join3_completion_12 join3_completion_11 join3_early_resume
        join3_left_dangling join3_timeout m)
qed

end
